theory Spec2Isabelle
  imports Complex_Main
begin

section \<open>Transaction core of the sales bot: data model\<close>

text \<open>
  The development embeds the payment service, the product service, the user activity
  log, the loyalty ledger and the fraud detection system of the repository.

  Conventions of the embedding.
  \<^item> A \<open>Date\<close> is the number of milliseconds since the epoch (\<open>int\<close>). Every call
    of an operation reads the clock once: the reading is the first argument \<open>now\<close>.
  \<^item> Loyalty points are integers (the store declares the columns \<open>INTEGER\<close>); money
    amounts and the conversion rate are rationals.
  \<^item> Identifiers that the store or the random generator makes up (a payment id, the
    delivery credentials) are arguments of the operation that needs them.
  \<^item> The tables of the store are maps from keys to rows; \<open>findByPk\<close> and
    \<open>findOne\<close> are map lookups, \<open>save\<close> is a map update. Apart from the foreign
    keys of the payment table, which make \<open>createPayment\<close> throw, reads and writes of
    the tables do not throw.
  \<^item> Result objects \<open>{success, message, ...}\<close> become values of a sum type, the
    message being a constructor of an error datatype.
\<close>

type_synonym user_id = string
type_synonym product_id = string
type_synonym payment_id = string
type_synonym timestamp = int

subsection \<open>Loyalty accounts\<close>

datatype tx_status = ACTIVE | USED | TX_EXPIRED

text \<open>One entry of \<open>loyalty.transactions\<close>. The id is \<open>Date.now().toString()\<close>: it is
  kept as the number it prints.\<close>

record loyalty_tx =
  tx_id :: timestamp
  tx_amount :: int
  tx_reason :: string
  tx_createdAt :: timestamp
  tx_expiresAt :: timestamp
  tx_status :: tx_status
  tx_relatedProductId :: "product_id option"
  tx_relatedPaymentId :: "payment_id option"
  tx_actionBy :: "string option"

text \<open>A row of the \<open>Loyalty\<close> table. The JSON column \<open>transactions\<close> may hold
  \<open>null\<close>, which the code tests for in three of its four readers.\<close>

record loyalty =
  l_userId :: user_id
  l_userName :: string
  totalPoints :: int
  lifetimePoints :: int
  level :: int
  transactions :: "loyalty_tx list option"
  lastUpdated :: timestamp

record metadata =
  md_productId :: "product_id option"
  md_paymentId :: "payment_id option"
  md_adminId :: "string option"

subsection \<open>Users and their activity log\<close>

record user =
  u_userId :: user_id
  u_username :: string
  u_email :: "string option"
  u_isBlocked :: bool
  u_blockReason :: "string option"
  u_createdAt :: timestamp
  u_lastActive :: timestamp

datatype jsval = JStr string | JNum rat

record activity =
  act_userId :: user_id
  act_action :: string
  act_data :: "(string \<times> jsval) list"
  act_createdAt :: timestamp

subsection \<open>Products and payments\<close>

record product =
  prod_id :: product_id
  nome :: string
  preco :: rat
  disponivel :: bool
  vendido :: bool
  dataVenda :: "timestamp option"
  compradoPor :: "user_id option"
  updatedAt :: "timestamp option"

datatype payment_status =
  PENDING | PROCESSING | COMPLETED | REJECTED | EXPIRED | FAILED | REFUNDED | CANCELLED

datatype rejection_reason = ProdutoNaoDisponivel | GivenReason string

record credentials =
  login :: string
  password :: string

record payment =
  p_id :: payment_id
  p_userId :: user_id
  p_userName :: string
  p_productId :: product_id
  p_productName :: string
  p_amount :: rat
  p_method :: string
  p_status :: payment_status
  p_createdAt :: timestamp
  p_expiresAt :: timestamp
  p_pixCode :: "string option"
  p_qrCodeUrl :: "string option"
  p_completedAt :: "timestamp option"
  p_approvedBy :: "string option"
  p_rejectedAt :: "timestamp option"
  p_rejectionReason :: "rejection_reason option"
  p_rejectedBy :: "string option"
  p_deliveryData :: "credentials option"
  p_ipAddress :: "string option"
  p_userAgent :: "string option"

record audit_entry =
  au_action :: string
  au_actor :: string
  au_payment :: "payment_id option"

subsection \<open>The store\<close>

record store =
  products :: "product_id \<rightharpoonup> product"
  payments :: "payment_id \<rightharpoonup> payment"
  loyalties :: "user_id \<rightharpoonup> loyalty"
  users :: "user_id \<rightharpoonup> user"
  activities :: "activity list"
  pendingCache :: "payment list option"
  audit :: "audit_entry list"

section \<open>Loyalty ledger\<close>

text \<open>\<open>config.marketing.loyaltyPoints\<close>.\<close>

definition conversionRate :: rat where
  "conversionRate = 1 / 100"

definition expirationDays :: int where
  "expirationDays = 90"

definition msPerDay :: int where
  "msPerDay = 24 * 60 * 60 * 1000"

text \<open>\<open>_calculateLoyaltyLevel\<close>.\<close>

definition calculateLoyaltyLevel :: "int \<Rightarrow> int" where
  "calculateLoyaltyLevel lp =
     (if lp \<ge> 10000 then 5
      else if lp \<ge> 5000 then 4
      else if lp \<ge> 2000 then 3
      else if lp \<ge> 500 then 2
      else 1)"

text \<open>The loop of \<open>_processExpiredPoints\<close>: it walks the copied array from the
  front, replaces every ACTIVE entry whose \<open>expiresAt\<close> is not after \<open>now\<close> by a copy
  with status EXPIRED, and adds its amount to \<open>pointsExpired\<close>. The result is the
  updated array and the sum.\<close>

fun expireScan :: "timestamp \<Rightarrow> loyalty_tx list \<Rightarrow> int \<Rightarrow> loyalty_tx list \<times> int" where
  "expireScan now [] pointsExpired = ([], pointsExpired)"
| "expireScan now (tx # rest) pointsExpired =
     (if tx_status tx = ACTIVE \<and> tx_expiresAt tx \<le> now
      then (let (upd, pe) = expireScan now rest (pointsExpired + tx_amount tx)
            in (tx\<lparr>tx_status := TX_EXPIRED\<rparr> # upd, pe))
      else (let (upd, pe) = expireScan now rest pointsExpired
            in (tx # upd, pe)))"

definition expirationTx :: "timestamp \<Rightarrow> int \<Rightarrow> loyalty_tx" where
  "expirationTx now pointsExpired =
     \<lparr> tx_id = now, tx_amount = - pointsExpired, tx_reason = ''EXPIRATION'',
       tx_createdAt = now, tx_expiresAt = now + 365 * msPerDay, tx_status = USED,
       tx_relatedProductId = None, tx_relatedPaymentId = None, tx_actionBy = None \<rparr>"

text \<open>\<open>_processExpiredPoints\<close> on the row it is given. Spreading a \<open>null\<close>
  \<open>transactions\<close> throws inside the \<open>try\<close>; the handler returns the row as it is.
  The row is written back only when \<open>pointsExpired > 0\<close>.\<close>

definition processExpiredPoints :: "timestamp \<Rightarrow> loyalty \<Rightarrow> loyalty" where
  "processExpiredPoints now l =
     (case transactions l of
        None \<Rightarrow> l
      | Some txs \<Rightarrow>
          (let (updatedTransactions, pointsExpired) = expireScan now txs 0 in
           if pointsExpired > 0
           then l\<lparr> transactions := Some (updatedTransactions @ [expirationTx now pointsExpired]),
                   totalPoints := totalPoints l - pointsExpired,
                   lastUpdated := now \<rparr>
           else l))"


text \<open>\<open>getUserProfile\<close>, which \<open>addPoints\<close> calls for a user without a loyalty
  row. The profile module it is imported from is not among the sources; the function
  is the one of the user service, which consolidates that module: the row, if there
  is one, with \<open>lastActive\<close> refreshed and saved.\<close>

definition getUserProfile :: "timestamp \<Rightarrow> user_id \<Rightarrow> store \<Rightarrow> user option \<times> store" where
  "getUserProfile now userId s =
     (case users s userId of
        None \<Rightarrow> (None, s)
      | Some u \<Rightarrow>
          (let u' = u\<lparr>u_lastActive := now\<rparr>
           in (Some u', s\<lparr>users := (users s)(userId \<mapsto> u')\<rparr>)))"

datatype loyalty_error =
    PointsNotPositive
  | UserNotFound
  | NoLoyaltyAccount
  | InsufficientBalance int int

text \<open>The part of \<open>addPoints\<close> after the row has been found or created: append the
  ACTIVE transaction, raise both counters, recompute the level, save, log. The
  success result is the pair \<open>(updatedPoints, level)\<close>.\<close>

definition creditRow ::
  "timestamp \<Rightarrow> user_id \<Rightarrow> int \<Rightarrow> string \<Rightarrow> metadata \<Rightarrow> loyalty \<Rightarrow> store
     \<Rightarrow> (loyalty_error + int \<times> int) \<times> store" where
  "creditRow now userId points reason md l s =
     (let expiresAt = now + expirationDays * msPerDay;
          transaction = \<lparr> tx_id = now, tx_amount = points, tx_reason = reason,
             tx_createdAt = now, tx_expiresAt = expiresAt, tx_status = ACTIVE,
             tx_relatedProductId = md_productId md, tx_relatedPaymentId = md_paymentId md,
             tx_actionBy = None \<rparr>;
          updatedTransactions =
             (case transactions l of None \<Rightarrow> [] | Some txs \<Rightarrow> txs) @ [transaction];
          updatedTotalPoints = totalPoints l + points;
          updatedLifetimePoints = lifetimePoints l + points;
          updatedLevel = calculateLoyaltyLevel updatedLifetimePoints;
          l' = l\<lparr> transactions := Some updatedTransactions,
                  totalPoints := updatedTotalPoints,
                  lifetimePoints := updatedLifetimePoints,
                  level := updatedLevel,
                  lastUpdated := now \<rparr>
      in (Inr (totalPoints l', level l'),
          s\<lparr> loyalties := (loyalties s)(userId \<mapsto> l'),
              audit := audit s @ [\<lparr> au_action = ''LOYALTY_POINTS_ADDED'', au_actor = userId,
                                    au_payment = md_paymentId md \<rparr>] \<rparr>))"

definition addPoints ::
  "timestamp \<Rightarrow> user_id \<Rightarrow> int \<Rightarrow> string \<Rightarrow> metadata \<Rightarrow> store
     \<Rightarrow> (loyalty_error + int \<times> int) \<times> store" where
  "addPoints now userId points reason md s =
     (if points \<le> 0 then (Inl PointsNotPositive, s)
      else
        (case loyalties s userId of
           Some l \<Rightarrow> creditRow now userId points reason md l s
         | None \<Rightarrow>
             (case getUserProfile now userId s of
                (None, s1) \<Rightarrow> (Inl UserNotFound, s1)
              | (Some userProfile, s1) \<Rightarrow>
                  creditRow now userId points reason md
                    \<lparr> l_userId = userId, l_userName = u_username userProfile,
                      totalPoints = 0, lifetimePoints = 0, level = 1,
                      transactions = Some [], lastUpdated = now \<rparr> s1)))"

text \<open>\<open>usePoints\<close>: the balance test reads the stored \<open>totalPoints\<close>; the success
  result is the pair \<open>(remainingPoints, level)\<close>.\<close>

definition usePoints ::
  "timestamp \<Rightarrow> user_id \<Rightarrow> int \<Rightarrow> string \<Rightarrow> metadata \<Rightarrow> store
     \<Rightarrow> (loyalty_error + int \<times> int) \<times> store" where
  "usePoints now userId points reason md s =
     (if points \<le> 0 then (Inl PointsNotPositive, s)
      else
        (case loyalties s userId of
           None \<Rightarrow> (Inl NoLoyaltyAccount, s)
         | Some l \<Rightarrow>
             if totalPoints l < points
             then (Inl (InsufficientBalance (totalPoints l) points), s)
             else
               (let transaction = \<lparr> tx_id = now, tx_amount = - points, tx_reason = reason,
                      tx_createdAt = now, tx_expiresAt = now + 365 * msPerDay,
                      tx_status = USED,
                      tx_relatedProductId = md_productId md,
                      tx_relatedPaymentId = md_paymentId md,
                      tx_actionBy = md_adminId md \<rparr>;
                    updatedTransactions =
                      (case transactions l of None \<Rightarrow> [] | Some txs \<Rightarrow> txs) @ [transaction];
                    l' = l\<lparr> transactions := Some updatedTransactions,
                            totalPoints := totalPoints l - points,
                            lastUpdated := now \<rparr>
                in (Inr (totalPoints l', level l'),
                    s\<lparr> loyalties := (loyalties s)(userId \<mapsto> l'),
                        audit := audit s @ [\<lparr> au_action = ''LOYALTY_POINTS_USED'',
                                    au_actor = userId, au_payment = md_paymentId md \<rparr>] \<rparr>))))"

record tx_view =
  v_id :: timestamp
  v_amount :: int
  v_reason :: string
  v_date :: timestamp
  v_expiresAt :: timestamp
  v_status :: tx_status

record points_view =
  pv_amount :: int
  pv_lifetimePoints :: int
  pv_level :: int
  pv_transactions :: "tx_view list"
  pv_valueInMoney :: rat

definition emptyView :: points_view where
  "emptyView = \<lparr> pv_amount = 0, pv_lifetimePoints = 0, pv_level = 1,
                  pv_transactions = [], pv_valueInMoney = 0 \<rparr>"

definition txView :: "loyalty_tx \<Rightarrow> tx_view" where
  "txView tx = \<lparr> v_id = tx_id tx, v_amount = tx_amount tx, v_reason = tx_reason tx,
                 v_date = tx_createdAt tx, v_expiresAt = tx_expiresAt tx,
                 v_status = tx_status tx \<rparr>"

text \<open>\<open>getUserPoints\<close>. Without a row it returns the empty view at once. With a
  row it runs \<open>_processExpiredPoints\<close> on it first; the history is sorted by
  \<open>createdAt\<close>, newest first, by the stable sort of the array.\<close>

definition getUserPoints :: "timestamp \<Rightarrow> user_id \<Rightarrow> store \<Rightarrow> points_view \<times> store" where
  "getUserPoints now userId s =
     (case loyalties s userId of
        None \<Rightarrow> (emptyView, s)
      | Some l0 \<Rightarrow>
          (let l = processExpiredPoints now l0;
               s' = s\<lparr>loyalties := (loyalties s)(userId \<mapsto> l)\<rparr>;
               valueInMoney = of_int (totalPoints l) * conversionRate;
               txs = (case transactions l of
                        None \<Rightarrow> []
                      | Some ts \<Rightarrow> map txView (sort_key (\<lambda>tx. - tx_createdAt tx) ts))
           in (\<lparr> pv_amount = totalPoints l, pv_lifetimePoints = lifetimePoints l,
                 pv_level = level l, pv_transactions = txs,
                 pv_valueInMoney = valueInMoney \<rparr>, s')))"

text \<open>A sequence of ledger calls, each with the clock reading at which it runs.\<close>

datatype loyalty_op =
    Credit user_id int string metadata
  | Debit user_id int string metadata
  | Balance user_id

fun applyLoyaltyOp :: "timestamp \<times> loyalty_op \<Rightarrow> store \<Rightarrow> store" where
  "applyLoyaltyOp (now, Credit u n r md) s = snd (addPoints now u n r md s)"
| "applyLoyaltyOp (now, Debit u n r md) s = snd (usePoints now u n r md s)"
| "applyLoyaltyOp (now, Balance u) s = snd (getUserPoints now u s)"

fun runLoyaltyOps :: "(timestamp \<times> loyalty_op) list \<Rightarrow> store \<Rightarrow> store" where
  "runLoyaltyOps [] s = s"
| "runLoyaltyOps (c # cs) s = runLoyaltyOps cs (applyLoyaltyOp c s)"

text \<open>The lifetime points of a user as \<open>getUserPoints\<close> reports them: those of the
  row, and 0 when there is none.\<close>

definition lifetimeOf :: "store \<Rightarrow> user_id \<Rightarrow> int" where
  "lifetimeOf s u = (case loyalties s u of None \<Rightarrow> 0 | Some l \<Rightarrow> lifetimePoints l)"


section \<open>User service: the activity log\<close>

text \<open>\<open>createUserProfile\<close> (\<open>findOrCreate\<close>). A new row takes the given
  \<open>createdAt\<close> or the clock; an existing row gets the user name, \<open>lastActive\<close> and,
  when one is given and not empty, the e-mail address.\<close>

definition createUserProfile ::
  "timestamp \<Rightarrow> user_id \<Rightarrow> string \<Rightarrow> string option \<Rightarrow> timestamp option \<Rightarrow> store
     \<Rightarrow> user \<times> store" where
  "createUserProfile now userId username email createdAt s =
     (case users s userId of
        None \<Rightarrow>
          (let u = \<lparr> u_userId = userId, u_username = username, u_email = email,
                      u_isBlocked = False, u_blockReason = None,
                      u_createdAt = (case createdAt of Some c \<Rightarrow> c | None \<Rightarrow> now),
                      u_lastActive = now \<rparr>
           in (u, s\<lparr>users := (users s)(userId \<mapsto> u)\<rparr>))
      | Some u \<Rightarrow>
          (let u' = u\<lparr> u_username := username, u_lastActive := now,
                        u_email := (case email of
                                      Some e \<Rightarrow> if e \<noteq> [] then Some e else u_email u
                                    | None \<Rightarrow> u_email u) \<rparr>
           in (u', s\<lparr>users := (users s)(userId \<mapsto> u')\<rparr>)))"

text \<open>The log is kept in the order of insertion, which is the order of
  \<open>createdAt\<close>. \<open>dropOldest u n\<close> deletes the \<open>n\<close> oldest entries of user \<open>u\<close>.\<close>

fun dropOldest :: "user_id \<Rightarrow> nat \<Rightarrow> activity list \<Rightarrow> activity list" where
  "dropOldest u 0 acts = acts"
| "dropOldest u (Suc n) [] = []"
| "dropOldest u (Suc n) (a # acts) =
     (if act_userId a = u then dropOldest u n acts else a # dropOldest u (Suc n) acts)"

text \<open>\<open>recordActivity\<close>: make the user row if it is missing, append the entry,
  keep the last 100 entries of the user, refresh \<open>lastActive\<close>.\<close>

definition recordActivity ::
  "timestamp \<Rightarrow> user_id \<Rightarrow> string \<Rightarrow> (string \<times> jsval) list \<Rightarrow> store \<Rightarrow> bool \<times> store" where
  "recordActivity now userId action data s =
     (let (usr, s1) = (case users s userId of
                         None \<Rightarrow> createUserProfile now userId userId None (Some now) s
                       | Some u \<Rightarrow> (u, s));
          s2 = s1\<lparr>activities := activities s1 @
                  [\<lparr> act_userId = userId, act_action = action, act_data = data,
                     act_createdAt = now \<rparr>]\<rparr>;
          count = length (filter (\<lambda>a. act_userId a = userId) (activities s2));
          s3 = (if count > 100
                then s2\<lparr>activities := dropOldest userId (count - 100) (activities s2)\<rparr>
                else s2)
      in (True, s3\<lparr>users := (users s3)(userId \<mapsto> usr\<lparr>u_lastActive := now\<rparr>)\<rparr>))"

section \<open>Product service\<close>

datatype product_error = ProductNotFound | ProductAlreadySold

text \<open>\<open>markProductAsSold\<close>.\<close>

definition markProductAsSold ::
  "timestamp \<Rightarrow> product_id \<Rightarrow> user_id \<Rightarrow> store \<Rightarrow> (product_error + unit) \<times> store" where
  "markProductAsSold now productId userId s =
     (case products s productId of
        None \<Rightarrow> (Inl ProductNotFound, s)
      | Some produto \<Rightarrow>
          if vendido produto then (Inl ProductAlreadySold, s)
          else
            (let produto' = produto\<lparr> vendido := True, disponivel := False,
                                     dataVenda := Some now, compradoPor := Some userId \<rparr>
             in (Inr (), s\<lparr>products := (products s)(productId \<mapsto> produto')\<rparr>)))"

text \<open>\<open>updateProduct\<close>: the fields of the update that are defined overwrite the
  row; \<open>disponivel\<close> is one of the allowed fields.\<close>

record update_data =
  ud_nome :: "string option"
  ud_preco :: "rat option"
  ud_disponivel :: "bool option"

definition updateProduct ::
  "timestamp \<Rightarrow> product_id \<Rightarrow> update_data \<Rightarrow> store \<Rightarrow> (product_error + product) \<times> store" where
  "updateProduct now productId updateData s =
     (case products s productId of
        None \<Rightarrow> (Inl ProductNotFound, s)
      | Some produto \<Rightarrow>
          (let p1 = (case ud_nome updateData of None \<Rightarrow> produto | Some v \<Rightarrow> produto\<lparr>nome := v\<rparr>);
               p2 = (case ud_preco updateData of None \<Rightarrow> p1 | Some v \<Rightarrow> p1\<lparr>preco := v\<rparr>);
               p3 = (case ud_disponivel updateData of None \<Rightarrow> p2 | Some v \<Rightarrow> p2\<lparr>disponivel := v\<rparr>);
               p4 = p3\<lparr>updatedAt := Some now\<rparr>
           in (Inr p4, s\<lparr>products := (products s)(productId \<mapsto> p4)\<rparr>)))"

section \<open>Payment service\<close>

record payment_data =
  pd_userId :: user_id
  pd_userName :: string
  pd_productId :: product_id
  pd_productName :: string
  pd_amount :: rat
  pd_ipAddress :: "string option"
  pd_userAgent :: "string option"

definition expirationTime :: int where
  "expirationTime = 1800"

datatype create_error = ForeignKeyViolation

text \<open>\<open>createPayment\<close>. The new id comes from the store and is fresh; the PIX code
  and the URL encoding are the work of the two generators, taken as arguments. The
  payment table has foreign keys on \<open>userId\<close> and \<open>productId\<close>: when the buyer has no
  user row or the product has no row, \<open>Payment.create\<close> throws, the handler logs and
  throws the error on, and nothing is stored or logged in the audit.\<close>

definition createPayment ::
  "timestamp \<Rightarrow> payment_id \<Rightarrow> (payment \<Rightarrow> string) \<Rightarrow> (string \<Rightarrow> string) \<Rightarrow> payment_data
     \<Rightarrow> store \<Rightarrow> (create_error + payment) \<times> store" where
  "createPayment now newId generatePixCode encodeURIComponent paymentData s =
     (if users s (pd_userId paymentData) = None
         \<or> products s (pd_productId paymentData) = None
      then (Inl ForeignKeyViolation, s)
      else
        (let expiresAt = now + expirationTime * 1000;
             newPayment = \<lparr> p_id = newId, p_userId = pd_userId paymentData,
                p_userName = pd_userName paymentData, p_productId = pd_productId paymentData,
                p_productName = pd_productName paymentData, p_amount = pd_amount paymentData,
                p_method = ''PIX'', p_status = PENDING, p_createdAt = now,
                p_expiresAt = expiresAt, p_pixCode = None, p_qrCodeUrl = None,
                p_completedAt = None, p_approvedBy = None, p_rejectedAt = None,
                p_rejectionReason = None, p_rejectedBy = None, p_deliveryData = None,
                p_ipAddress = pd_ipAddress paymentData,
                p_userAgent = pd_userAgent paymentData \<rparr>;
             pixCode = generatePixCode newPayment;
             qrCodeUrl = ''https://api.qrserver.com/v1/create-qr-code/?size=300x300&data='' @
                         encodeURIComponent pixCode;
             newPayment' = newPayment\<lparr>p_pixCode := Some pixCode,
                                        p_qrCodeUrl := Some qrCodeUrl\<rparr>
         in (Inr newPayment',
             s\<lparr> payments := (payments s)(newId \<mapsto> newPayment'),
                 audit := audit s @ [\<lparr> au_action = ''PAYMENT_CREATED'',
                                       au_actor = pd_userId paymentData,
                                       au_payment = Some newId \<rparr>] \<rparr>)))"

datatype payment_error =
    PaymentNotFound
  | AlreadyApproved
  | AlreadyRejectedOrExpired
  | ProductUnavailable
  | ApprovedCannotBeRejected
  | RejectedBefore

text \<open>\<open>approvePayment\<close>. A failure carries the payment the result object holds
  (\<open>null\<close> when none was found); a success carries the payment and the credentials.
  The only tests are the ones on the status and on the product.\<close>

definition approvePayment ::
  "timestamp \<Rightarrow> credentials \<Rightarrow> payment_id \<Rightarrow> string \<Rightarrow> store
     \<Rightarrow> (payment_error \<times> payment option + payment \<times> credentials) \<times> store" where
  "approvePayment now accountCredentials paymentId adminId s =
     (case payments s paymentId of
        None \<Rightarrow> (Inl (PaymentNotFound, None), s)
      | Some payment \<Rightarrow>
          if p_status payment \<noteq> PENDING \<and> p_status payment \<noteq> PROCESSING
          then (Inl (if p_status payment = COMPLETED then AlreadyApproved
                     else AlreadyRejectedOrExpired, Some payment), s)
          else
            (case (case products s (p_productId payment) of
                     None \<Rightarrow> None
                   | Some product \<Rightarrow>
                       if \<not> disponivel product \<or> vendido product then None
                       else Some product) of
               None \<Rightarrow>
                 (let payment' = payment\<lparr> p_status := REJECTED, p_rejectedAt := Some now,
                                          p_rejectionReason := Some ProdutoNaoDisponivel \<rparr>
                  in (Inl (ProductUnavailable, Some payment'),
                      s\<lparr>payments := (payments s)(paymentId \<mapsto> payment')\<rparr>))
             | Some product \<Rightarrow>
                 (let payment' = payment\<lparr> p_status := COMPLETED, p_completedAt := Some now,
                                          p_approvedBy := Some adminId,
                                          p_deliveryData := Some accountCredentials \<rparr>;
                      s1 = s\<lparr>payments := (payments s)(paymentId \<mapsto> payment')\<rparr>;
                      product' = product\<lparr> vendido := True, disponivel := False,
                                    dataVenda := Some now,
                                    compradoPor := Some (p_userId payment') \<rparr>;
                      s2 = s1\<lparr>products := (products s1)(p_productId payment' \<mapsto> product')\<rparr>;
                      (ok, s3) = recordActivity now (p_userId payment') ''PRODUCT_PURCHASE''
                                   [(''productId'', JStr (prod_id product')),
                                    (''productName'', JStr (nome product')),
                                    (''paymentId'', JStr (p_id payment')),
                                    (''amount'', JNum (p_amount payment'))] s2;
                      s4 = s3\<lparr>pendingCache := None\<rparr>;
                      s5 = s4\<lparr>audit := audit s4 @ [\<lparr> au_action = ''PAYMENT_APPROVED'',
                                    au_actor = adminId, au_payment = Some (p_id payment') \<rparr>]\<rparr>
                  in (Inr (payment', accountCredentials), s5))))"

text \<open>\<open>rejectPayment\<close>: two statuses are refused, every other one is overwritten.\<close>

definition rejectPayment ::
  "timestamp \<Rightarrow> payment_id \<Rightarrow> string \<Rightarrow> string \<Rightarrow> store
     \<Rightarrow> (payment_error \<times> payment option + payment) \<times> store" where
  "rejectPayment now paymentId reason adminId s =
     (case payments s paymentId of
        None \<Rightarrow> (Inl (PaymentNotFound, None), s)
      | Some payment \<Rightarrow>
          if p_status payment = COMPLETED
          then (Inl (ApprovedCannotBeRejected, Some payment), s)
          else if p_status payment = REJECTED
          then (Inl (RejectedBefore, Some payment), s)
          else
            (let payment' = payment\<lparr> p_status := REJECTED, p_rejectedAt := Some now,
                                     p_rejectionReason := Some (GivenReason reason),
                                     p_rejectedBy := Some adminId \<rparr>;
                 s1 = s\<lparr>payments := (payments s)(paymentId \<mapsto> payment')\<rparr>;
                 (ok, s2) = recordActivity now (p_userId payment') ''PAYMENT_REJECTED''
                              [(''paymentId'', JStr (p_id payment')),
                               (''productId'', JStr (p_productId payment')),
                               (''reason'', JStr reason)] s1;
                 s3 = s2\<lparr>pendingCache := None\<rparr>;
                 s4 = s3\<lparr>audit := audit s3 @ [\<lparr> au_action = ''PAYMENT_REJECTED'',
                               au_actor = adminId, au_payment = Some (p_id payment') \<rparr>]\<rparr>
             in (Inr payment', s4)))"


section \<open>Fraud detection system\<close>







record transaction =
  t_userId :: user_id
  t_productId :: product_id
  t_amount :: rat
  t_paymentMethod :: string
  t_ipAddress :: "string option"




























section \<open>Predicates of the properties\<close>

text \<open>The test \<open>!product || !product.disponivel || product.vendido\<close> of
  \<open>approvePayment\<close>, on the result of the product lookup.\<close>

definition productUnavailable :: "product option \<Rightarrow> bool" where
  "productUnavailable po =
     (case po of None \<Rightarrow> True | Some p \<Rightarrow> \<not> disponivel p \<or> vendido p)"

definition isSold :: "product option \<Rightarrow> bool" where
  "isSold po = (case po of None \<Rightarrow> False | Some p \<Rightarrow> vendido p)"

text \<open>The invariant of a product row: a sold product is not available.\<close>

definition soldImpliesUnavailable :: "product option \<Rightarrow> bool" where
  "soldImpliesUnavailable po =
     (case po of None \<Rightarrow> True | Some p \<Rightarrow> (if vendido p then \<not> disponivel p else True))"

definition statusOf :: "store \<Rightarrow> payment_id \<Rightarrow> payment_status option" where
  "statusOf s paymentId = map_option p_status (payments s paymentId)"

text \<open>The statuses from which \<open>approvePayment\<close> goes on: PENDING and PROCESSING.\<close>

definition isOpen :: "payment_status option \<Rightarrow> bool" where
  "isOpen so = (so = Some PENDING \<or> so = Some PROCESSING)"

text \<open>The transaction entries of a loyalty row, none for a missing row or column.\<close>

definition txsOf :: "loyalty option \<Rightarrow> loyalty_tx list" where
  "txsOf lo =
     (case lo of None \<Rightarrow> []
      | Some l \<Rightarrow> (case transactions l of None \<Rightarrow> [] | Some txs \<Rightarrow> txs))"

text \<open>The stored level of a loyalty row is the tier of its lifetime points.\<close>

definition tierConsistent :: "loyalty option \<Rightarrow> bool" where
  "tierConsistent lo =
     (case lo of None \<Rightarrow> True
      | Some l \<Rightarrow> level l = calculateLoyaltyLevel (lifetimePoints l))"


section \<open>Scenarios\<close>

text \<open>A store with one user and one product on sale, and a purchase of it for
  59.90.\<close>

definition demoProduct :: product where
  "demoProduct = \<lparr> prod_id = ''prod1'', nome = ''Conta Valorant'', preco = 599 / 10,
                    disponivel = True, vendido = False, dataVenda = None,
                    compradoPor = None, updatedAt = None \<rparr>"

definition demoUser :: user where
  "demoUser = \<lparr> u_userId = ''u1'', u_username = ''ana'', u_email = None,
                 u_isBlocked = False, u_blockReason = None, u_createdAt = 0,
                 u_lastActive = 0 \<rparr>"

definition demoStore :: store where
  "demoStore = \<lparr> products = [''prod1'' \<mapsto> demoProduct], payments = Map.empty,
                  loyalties = Map.empty, users = [''u1'' \<mapsto> demoUser], activities = [],
                  pendingCache = None, audit = [] \<rparr>"

definition demoPaymentData :: payment_data where
  "demoPaymentData = \<lparr> pd_userId = ''u1'', pd_userName = ''ana'', pd_productId = ''prod1'',
                        pd_productName = ''Conta Valorant'', pd_amount = 599 / 10,
                        pd_ipAddress = None, pd_userAgent = None \<rparr>"

definition demoPix :: "payment \<Rightarrow> string" where
  "demoPix p = ''pix:'' @ p_id p"

definition demoEncode :: "string \<Rightarrow> string" where
  "demoEncode str = str"

definition demoCreds :: credentials where
  "demoCreds = \<lparr> login = ''user_0a1b2c3d'', password = ''s3nh4'' \<rparr>"

text \<open>The store after the payment \<open>pay1\<close> has been created at time 0.\<close>

definition paidStore :: store where
  "paidStore = snd (createPayment 0 ''pay1'' demoPix demoEncode demoPaymentData demoStore)"

text \<open>The payment that creation returns and stores.\<close>

definition demoPayment :: payment where
  "demoPayment =
     \<lparr> p_id = ''pay1'', p_userId = ''u1'', p_userName = ''ana'', p_productId = ''prod1'',
       p_productName = ''Conta Valorant'', p_amount = 599 / 10, p_method = ''PIX'',
       p_status = PENDING, p_createdAt = 0, p_expiresAt = 1800000,
       p_pixCode = Some ''pix:pay1'',
       p_qrCodeUrl =
         Some ''https://api.qrserver.com/v1/create-qr-code/?size=300x300&data=pix:pay1'',
       p_completedAt = None, p_approvedBy = None, p_rejectedAt = None,
       p_rejectionReason = None, p_rejectedBy = None, p_deliveryData = None,
       p_ipAddress = None, p_userAgent = None \<rparr>"

text \<open>The store without the user row of the buyer.\<close>

definition noUserStore :: store where
  "noUserStore = demoStore\<lparr>users := Map.empty\<rparr>"

text \<open>The same store with the status of \<open>pay1\<close> overwritten.\<close>

definition storeWithStatus :: "payment_status \<Rightarrow> store" where
  "storeWithStatus st =
     paidStore\<lparr>payments :=
        map_option (\<lambda>p. p\<lparr>p_status := st\<rparr>) \<circ> payments paidStore\<rparr>"

text \<open>The store after the product has been marked as sold at time 1.\<close>

definition soldStore :: store where
  "soldStore = snd (markProductAsSold 1 ''prod1'' ''u1'' demoStore)"

text \<open>The store with the payment \<open>pay1\<close> still open and its product sold to
  another buyer.\<close>

definition soldPaidStore :: store where
  "soldPaidStore = snd (markProductAsSold 1 ''prod1'' ''u2'' paidStore)"

definition reopen :: update_data where
  "reopen = \<lparr> ud_nome = None, ud_preco = None, ud_disponivel = Some True \<rparr>"

text \<open>The store after the sold product has been made available again by an update.\<close>

definition reopenedStore :: store where
  "reopenedStore = snd (updateProduct 5 ''prod1'' reopen soldStore)"

text \<open>A loyalty account whose only credit, of 100 points, expired at time 10.\<close>

definition staleAccount :: loyalty where
  "staleAccount =
     \<lparr> l_userId = ''u1'', l_userName = ''ana'', totalPoints = 100, lifetimePoints = 100,
       level = 1,
       transactions = Some [\<lparr> tx_id = 1, tx_amount = 100, tx_reason = ''PURCHASE'',
          tx_createdAt = 1, tx_expiresAt = 10, tx_status = ACTIVE,
          tx_relatedProductId = None, tx_relatedPaymentId = None, tx_actionBy = None \<rparr>],
       lastUpdated = 1 \<rparr>"

definition staleStore :: store where
  "staleStore = demoStore\<lparr>loyalties := [''u1'' \<mapsto> staleAccount]\<rparr>"

definition noMetadata :: metadata where
  "noMetadata = \<lparr> md_productId = None, md_paymentId = None, md_adminId = None \<rparr>"

definition demoOps :: "(timestamp \<times> loyalty_op) list" where
  "demoOps = [(5, Credit ''u1'' 2000 ''PURCHASE'' noMetadata),
              (6, Debit ''u1'' 1500 ''REDEEM'' noMetadata),
              (5 + 91 * msPerDay, Balance ''u1'')]"











section \<open>Properties of the loyalty ledger\<close>

subsection \<open>The expiration sweep\<close>

lemma expireScan_again:
  "expireScan now (fst (expireScan now txs a)) b = (fst (expireScan now txs a), b)"
  by (induction txs arbitrary: a b) (auto simp: split_def Let_def)

lemma expireScan_append:
  "expireScan now (xs @ ys) a =
     (fst (expireScan now xs a) @ fst (expireScan now ys (snd (expireScan now xs a))),
      snd (expireScan now ys (snd (expireScan now xs a))))"
  by (induction xs arbitrary: a) (auto simp: split_def Let_def)

lemma expirationTx_status: "tx_status (expirationTx now p) = USED"
  by (simp add: expirationTx_def)

lemma processExpiredPoints_again:
  "processExpiredPoints now (processExpiredPoints now l) = processExpiredPoints now l"
proof (cases "transactions l")
  case None
  then show ?thesis by (simp add: processExpiredPoints_def)
next
  case (Some txs)
  show ?thesis
  proof (cases "snd (expireScan now txs 0) > 0")
    case True
    then show ?thesis using Some
      by (simp add: processExpiredPoints_def split_def Let_def expireScan_append
          expireScan_again expirationTx_status)
  next
    case False
    then show ?thesis using Some by (simp add: processExpiredPoints_def split_def Let_def)
  qed
qed

lemma getUserPoints_again:
  "getUserPoints now u (snd (getUserPoints now u s)) = getUserPoints now u s"
proof (cases "loyalties s u")
  case None
  then show ?thesis by (simp add: getUserPoints_def)
next
  case (Some l)
  then show ?thesis
    by (simp add: getUserPoints_def Let_def processExpiredPoints_again)
qed

text \<open>
  Claim C6. The expiration sweep is idempotent: run a second time at the same clock
  reading, \<open>_processExpiredPoints\<close> returns the row the first run returned, so the
  balance does not change and no transaction is appended; the same holds for two
  calls of \<open>getUserPoints\<close> in a row, for the view and for the store.
\<close>

theorem processExpiredPoints_idempotent:
  "processExpiredPoints now (processExpiredPoints now l) = processExpiredPoints now l
   \<and> totalPoints (processExpiredPoints now (processExpiredPoints now l))
       = totalPoints (processExpiredPoints now l)
   \<and> transactions (processExpiredPoints now (processExpiredPoints now l))
       = transactions (processExpiredPoints now l)
   \<and> getUserPoints now u (snd (getUserPoints now u s)) = getUserPoints now u s"
  by (simp add: processExpiredPoints_again getUserPoints_again)

text \<open>On the account whose 100 points expired at time 10: the first sweep at time 20
  takes the balance to 0 and leaves two entries, the second changes nothing.\<close>

theorem processExpiredPoints_idempotent_witness:
  "totalPoints (processExpiredPoints 20 staleAccount) = 0
   \<and> map_option length (transactions (processExpiredPoints 20 staleAccount)) = Some 2
   \<and> processExpiredPoints 20 (processExpiredPoints 20 staleAccount)
       = processExpiredPoints 20 staleAccount"
proof -
  have a: "totalPoints (processExpiredPoints 20 staleAccount) = 0"
    by (simp add: processExpiredPoints_def staleAccount_def)
  have b: "map_option length (transactions (processExpiredPoints 20 staleAccount)) = Some 2"
    by (simp add: processExpiredPoints_def staleAccount_def)
  show ?thesis
    using a b processExpiredPoints_idempotent [of 20 staleAccount "''u1''" staleStore]
    by simp
qed

subsection \<open>Tiers and lifetime points\<close>

lemma loyalties_getUserProfile: "loyalties (snd (getUserProfile now u s)) = loyalties s"
  by (simp add: getUserProfile_def Let_def split: option.splits)

lemma lifetime_creditRow:
  "0 < n \<Longrightarrow> loyalties s u' = Some l \<or> (loyalties s u' = None \<and> lifetimePoints l = 0) \<Longrightarrow>
   lifetimeOf s u \<le> lifetimeOf (snd (creditRow now u' n r md l s)) u"
  by (auto simp: creditRow_def lifetimeOf_def Let_def)

lemma lifetime_addPoints:
  "lifetimeOf s u \<le> lifetimeOf (snd (addPoints now u' n r md s)) u"
proof (cases "n \<le> 0")
  case True
  then show ?thesis by (simp add: addPoints_def)
next
  case False
  then have pos: "0 < n" by simp
  show ?thesis
  proof (cases "loyalties s u'")
    case (Some l)
    then show ?thesis using pos lifetime_creditRow [of n s u' l u now r md]
      by (simp add: addPoints_def)
  next
    case None
    show ?thesis
    proof (cases "users s u'")
      case noUser: None
      then show ?thesis using None pos by (simp add: addPoints_def getUserProfile_def)
    next
      case (Some usr)
      let ?s1 = "s\<lparr>users := (users s)(u' \<mapsto> usr\<lparr>u_lastActive := now\<rparr>)\<rparr>"
      let ?l = "\<lparr> l_userId = u', l_userName = u_username (usr\<lparr>u_lastActive := now\<rparr>),
                  totalPoints = 0, lifetimePoints = 0, level = 1,
                  transactions = Some [], lastUpdated = now \<rparr>"
      have "lifetimeOf ?s1 u \<le> lifetimeOf (snd (creditRow now u' n r md ?l ?s1)) u"
        using pos None by (intro lifetime_creditRow) simp_all
      moreover have "lifetimeOf ?s1 u = lifetimeOf s u" by (simp add: lifetimeOf_def)
      ultimately show ?thesis using None Some pos
        by (simp add: addPoints_def getUserProfile_def Let_def)
    qed
  qed
qed

lemma lifetime_usePoints:
  "lifetimeOf (snd (usePoints now u' n r md s)) u = lifetimeOf s u"
  by (auto simp: usePoints_def lifetimeOf_def Let_def split: option.splits)

lemma lifetime_processExpiredPoints:
  "lifetimePoints (processExpiredPoints now l) = lifetimePoints l"
  by (simp add: processExpiredPoints_def Let_def split_def split: option.splits)

lemma lifetime_getUserPoints:
  "lifetimeOf (snd (getUserPoints now u' s)) u = lifetimeOf s u"
  by (auto simp: getUserPoints_def lifetimeOf_def Let_def lifetime_processExpiredPoints
      split: option.splits)

lemma lifetime_applyLoyaltyOp:
  "lifetimeOf s u \<le> lifetimeOf (applyLoyaltyOp c s) u"
proof (cases c)
  case (Pair now op)
  then show ?thesis
    by (cases op) (simp_all add: lifetime_addPoints lifetime_usePoints lifetime_getUserPoints)
qed

lemma lifetime_runLoyaltyOps:
  "lifetimeOf s u \<le> lifetimeOf (runLoyaltyOps cs s) u"
proof (induction cs arbitrary: s)
  case Nil
  show ?case by simp
next
  case (Cons c cs)
  have "lifetimeOf s u \<le> lifetimeOf (applyLoyaltyOp c s) u"
    by (rule lifetime_applyLoyaltyOp)
  also have "\<dots> \<le> lifetimeOf (runLoyaltyOps cs (applyLoyaltyOp c s)) u"
    by (rule Cons.IH)
  finally show ?case by simp
qed

lemma level_bands:
  "(calculateLoyaltyLevel lp = 5 \<longleftrightarrow> 10000 \<le> lp)
   \<and> (calculateLoyaltyLevel lp = 4 \<longleftrightarrow> 5000 \<le> lp \<and> lp < 10000)
   \<and> (calculateLoyaltyLevel lp = 3 \<longleftrightarrow> 2000 \<le> lp \<and> lp < 5000)
   \<and> (calculateLoyaltyLevel lp = 2 \<longleftrightarrow> 500 \<le> lp \<and> lp < 2000)
   \<and> (calculateLoyaltyLevel lp = 1 \<longleftrightarrow> lp < 500)"
  by (simp add: calculateLoyaltyLevel_def)

lemma level_mono: "a \<le> b \<Longrightarrow> calculateLoyaltyLevel a \<le> calculateLoyaltyLevel b"
  by (simp add: calculateLoyaltyLevel_def)

lemma addPoints_level:
  assumes "fst (addPoints now u n r md s) = Inr (bal, lv)"
  shows "\<exists>l. loyalties (snd (addPoints now u n r md s)) u = Some l
             \<and> level l = calculateLoyaltyLevel (lifetimePoints l) \<and> lv = level l"
  using assms
  by (auto simp: addPoints_def creditRow_def getUserProfile_def Let_def
      split: if_splits option.splits)

lemma tier_addPoints:
  "tierConsistent (loyalties s u) \<Longrightarrow>
   tierConsistent (loyalties (snd (addPoints now u' n r md s)) u)"
  by (auto simp: addPoints_def creditRow_def getUserProfile_def tierConsistent_def Let_def
      split: option.splits)

lemma tier_usePoints:
  "tierConsistent (loyalties s u) \<Longrightarrow>
   tierConsistent (loyalties (snd (usePoints now u' n r md s)) u)"
  by (auto simp: usePoints_def tierConsistent_def Let_def split: option.splits)

lemma level_processExpiredPoints:
  "level (processExpiredPoints now l) = level l"
  by (simp add: processExpiredPoints_def Let_def split_def split: option.splits)

lemma tier_getUserPoints:
  "tierConsistent (loyalties s u) \<Longrightarrow>
   tierConsistent (loyalties (snd (getUserPoints now u' s)) u)"
  by (auto simp: getUserPoints_def tierConsistent_def Let_def level_processExpiredPoints
      lifetime_processExpiredPoints split: option.splits)

lemma tier_runLoyaltyOps:
  "tierConsistent (loyalties s u) \<Longrightarrow>
   tierConsistent (loyalties (runLoyaltyOps cs s) u)"
proof (induction cs arbitrary: s)
  case Nil
  then show ?case by simp
next
  case (Cons c cs)
  obtain now op where c: "c = (now, op)" by (cases c)
  have "tierConsistent (loyalties (applyLoyaltyOp c s) u)"
    unfolding c using Cons.prems
    by (cases op) (simp_all add: tier_addPoints tier_usePoints tier_getUserPoints)
  then show ?case using Cons.IH by simp
qed

text \<open>
  Claim C9. The tier is a function of the lifetime points alone, with the bands
  10000, 5000, 2000 and 500 (so 2000 gives tier 3 and 1999 gives tier 2); it is
  monotonic, and it is the level a credit stores. Over every sequence of credits,
  debits and balance reads (each balance read runs the expiration sweep) the
  lifetime points of every user never decrease, and a row whose stored level is the
  tier of its lifetime points stays so.
\<close>

theorem tier_of_lifetime_points:
  "(calculateLoyaltyLevel lp = 5 \<longleftrightarrow> 10000 \<le> lp)
   \<and> (calculateLoyaltyLevel lp = 4 \<longleftrightarrow> 5000 \<le> lp \<and> lp < 10000)
   \<and> (calculateLoyaltyLevel lp = 3 \<longleftrightarrow> 2000 \<le> lp \<and> lp < 5000)
   \<and> (calculateLoyaltyLevel lp = 2 \<longleftrightarrow> 500 \<le> lp \<and> lp < 2000)
   \<and> (calculateLoyaltyLevel lp = 1 \<longleftrightarrow> lp < 500)
   \<and> calculateLoyaltyLevel 2000 = 3 \<and> calculateLoyaltyLevel 1999 = 2
   \<and> (a \<le> b \<longrightarrow> calculateLoyaltyLevel a \<le> calculateLoyaltyLevel b)
   \<and> (fst (addPoints now u n r md s) = Inr (bal, lv) \<longrightarrow>
        (\<exists>l. loyalties (snd (addPoints now u n r md s)) u = Some l
             \<and> level l = calculateLoyaltyLevel (lifetimePoints l) \<and> lv = level l))
   \<and> lifetimePoints (processExpiredPoints now acct) = lifetimePoints acct
   \<and> lifetimeOf s u \<le> lifetimeOf (runLoyaltyOps ops s) u
   \<and> (tierConsistent (loyalties s u) \<longrightarrow>
        tierConsistent (loyalties (runLoyaltyOps ops s) u))"
proof -
  have ex: "calculateLoyaltyLevel 2000 = 3 \<and> calculateLoyaltyLevel 1999 = 2"
    by (simp add: calculateLoyaltyLevel_def)
  show ?thesis
    using level_bands [of lp] ex level_mono [of a b] addPoints_level [of now u n r md s bal lv]
      lifetime_processExpiredPoints [of now acct] lifetime_runLoyaltyOps [of s u ops]
      tier_runLoyaltyOps [of s u ops]
    by blast
qed

text \<open>A credit of 2000 points, a debit of 1500 and a balance read 91 days later, when
  the credit has expired: the lifetime points go from 0 to 2000 and stay there, and
  the credit stores tier 3.\<close>

theorem tier_of_lifetime_points_witness:
  "(2000::int) \<le> 2001
   \<and> calculateLoyaltyLevel 2000 \<le> calculateLoyaltyLevel 2001
   \<and> fst (addPoints 5 ''u1'' 2000 ''PURCHASE'' noMetadata
            (demoStore\<lparr>users := [''u1'' \<mapsto> demoUser]\<rparr>)) = Inr (2000, 3)
   \<and> map_option level (loyalties (snd (addPoints 5 ''u1'' 2000 ''PURCHASE'' noMetadata
            (demoStore\<lparr>users := [''u1'' \<mapsto> demoUser]\<rparr>))) ''u1'') = Some 3
   \<and> lifetimeOf (demoStore\<lparr>users := [''u1'' \<mapsto> demoUser]\<rparr>) ''u1'' = 0
   \<and> lifetimeOf (runLoyaltyOps demoOps (demoStore\<lparr>users := [''u1'' \<mapsto> demoUser]\<rparr>)) ''u1''
       = 2000
   \<and> tierConsistent (loyalties (demoStore\<lparr>users := [''u1'' \<mapsto> demoUser]\<rparr>) ''u1'')
   \<and> tierConsistent
        (loyalties (runLoyaltyOps demoOps (demoStore\<lparr>users := [''u1'' \<mapsto> demoUser]\<rparr>))
           ''u1'')"
proof -
  let ?s = "demoStore\<lparr>users := [''u1'' \<mapsto> demoUser]\<rparr>"
  have le: "(2000::int) \<le> 2001" by simp
  have r: "fst (addPoints 5 ''u1'' 2000 ''PURCHASE'' noMetadata ?s) = Inr (2000, 3)"
    by code_simp
  have z: "lifetimeOf ?s ''u1'' = 0"
    by code_simp
  have f: "lifetimeOf (runLoyaltyOps demoOps ?s) ''u1'' = 2000"
    by code_simp
  have tc: "tierConsistent (loyalties ?s ''u1'')"
    by (simp add: tierConsistent_def demoStore_def)
  from tier_of_lifetime_points [where lp = 2000 and a = 2000 and b = 2001 and now = 5
      and u = "''u1''" and n = 2000 and r = "''PURCHASE''" and md = noMetadata and s = ?s
      and bal = 2000 and lv = 3 and acct = staleAccount and ops = demoOps] tc
  have tc': "tierConsistent (loyalties (runLoyaltyOps demoOps ?s) ''u1'')"
    by blast
  from tier_of_lifetime_points [where lp = 2000 and a = 2000 and b = 2001 and now = 5
      and u = "''u1''" and n = 2000 and r = "''PURCHASE''" and md = noMetadata and s = ?s
      and bal = 2000 and lv = 3 and acct = staleAccount and ops = demoOps] le r
  have m: "calculateLoyaltyLevel 2000 \<le> calculateLoyaltyLevel 2001"
    and e: "\<exists>l. loyalties (snd (addPoints 5 ''u1'' 2000 ''PURCHASE'' noMetadata ?s)) ''u1''
                  = Some l
              \<and> level l = calculateLoyaltyLevel (lifetimePoints l) \<and> 3 = level l"
    by blast+
  from e have lv: "map_option level (loyalties (snd (addPoints 5 ''u1'' 2000 ''PURCHASE''
      noMetadata ?s)) ''u1'') = Some 3"
    by auto
  show ?thesis using le m r lv z f tc tc' by simp
qed

subsection \<open>Reading the balance of a user without an account\<close>

text \<open>
  Claim C10. For a user who has no loyalty account, \<open>getUserPoints\<close> returns the view
  with amount 0, lifetime points 0, level 1, no transactions and value 0, and the
  store it leaves is the store it found: no account is created.
\<close>

theorem getUserPoints_without_account:
  "loyalties s u = None \<Longrightarrow>
   getUserPoints now u s =
     (\<lparr> pv_amount = 0, pv_lifetimePoints = 0, pv_level = 1, pv_transactions = [],
        pv_valueInMoney = 0 \<rparr>, s)"
  by (simp add: getUserPoints_def emptyView_def)

theorem getUserPoints_without_account_witness:
  "loyalties demoStore ''u1'' = None
   \<and> getUserPoints 7 ''u1'' demoStore =
       (\<lparr> pv_amount = 0, pv_lifetimePoints = 0, pv_level = 1, pv_transactions = [],
          pv_valueInMoney = 0 \<rparr>, demoStore)
   \<and> loyalties (snd (getUserPoints 7 ''u1'' demoStore)) ''u1'' = None"
proof -
  have h: "loyalties demoStore ''u1'' = None" by (simp add: demoStore_def)
  show ?thesis using h getUserPoints_without_account [OF h, of 7] by simp
qed

subsection \<open>The balance test of a debit\<close>

lemma usePoints_keeps_entries:
  "take (length (txsOf (loyalties s u)))
     (txsOf (loyalties (snd (usePoints now u points r md s)) u)) = txsOf (loyalties s u)"
  by (auto simp: usePoints_def txsOf_def Let_def split: option.splits)

lemma addPoints_keeps_entries:
  "take (length (txsOf (loyalties s u)))
     (txsOf (loyalties (snd (addPoints now u points r md s)) u)) = txsOf (loyalties s u)"
  by (auto simp: addPoints_def creditRow_def getUserProfile_def txsOf_def Let_def
      split: option.splits)

text \<open>
  Claim C5, as the code has it. \<open>usePoints\<close> compares the requested points with the
  stored \<open>totalPoints\<close> of the row: it fails with the insufficient-balance result
  exactly when the request exceeds the stored balance. No expiration sweep runs in
  \<open>usePoints\<close> or \<open>addPoints\<close>: the entries the row held are still there, as they
  were, at the front of the list the call leaves.
\<close>

theorem usePoints_tests_stored_balance:
  assumes "0 < points" and "loyalties s u = Some l"
  shows "(totalPoints l < points \<longrightarrow>
            usePoints now u points r md s =
              (Inl (InsufficientBalance (totalPoints l) points), s))
       \<and> (points \<le> totalPoints l \<longrightarrow>
            fst (usePoints now u points r md s) = Inr (totalPoints l - points, level l))
       \<and> take (length (txsOf (loyalties s u)))
            (txsOf (loyalties (snd (usePoints now u points r md s)) u)) = txsOf (loyalties s u)
       \<and> take (length (txsOf (loyalties s u)))
            (txsOf (loyalties (snd (addPoints now u points r md s)) u)) = txsOf (loyalties s u)"
proof -
  have "(totalPoints l < points \<longrightarrow>
            usePoints now u points r md s =
              (Inl (InsufficientBalance (totalPoints l) points), s))
       \<and> (points \<le> totalPoints l \<longrightarrow>
            fst (usePoints now u points r md s) = Inr (totalPoints l - points, level l))"
    using assms by (simp add: usePoints_def Let_def)
  then show ?thesis
    using usePoints_keeps_entries [of s u now points r md]
      addPoints_keeps_entries [of s u now points r md]
    by blast
qed

text \<open>The account whose 100 points expired at time 10: at time 20 a balance read
  reports 0 points and marks the credit as expired, while a debit of 50 points at
  time 20 succeeds, leaves 50 and keeps the credit active.\<close>

theorem usePoints_tests_stored_balance_witness:
  "(0::int) < 50 \<and> loyalties staleStore ''u1'' = Some staleAccount
   \<and> 50 \<le> totalPoints staleAccount
   \<and> pv_amount (fst (getUserPoints 20 ''u1'' staleStore)) = 0
   \<and> map tx_status (txsOf (loyalties (snd (getUserPoints 20 ''u1'' staleStore)) ''u1''))
       = [TX_EXPIRED, USED]
   \<and> fst (usePoints 20 ''u1'' 50 ''REDEEM'' noMetadata staleStore) = Inr (50, 1)
   \<and> map tx_status (txsOf (loyalties
          (snd (usePoints 20 ''u1'' 50 ''REDEEM'' noMetadata staleStore)) ''u1''))
       = [ACTIVE, USED]"
proof -
  have p: "(0::int) < 50" by simp
  have l: "loyalties staleStore ''u1'' = Some staleAccount" by (simp add: staleStore_def)
  have b: "50 \<le> totalPoints staleAccount" by (simp add: staleAccount_def)
  have g: "pv_amount (fst (getUserPoints 20 ''u1'' staleStore)) = 0"
    by (simp add: getUserPoints_def staleStore_def staleAccount_def Let_def
        processExpiredPoints_def)
  have g': "map tx_status (txsOf (loyalties (snd (getUserPoints 20 ''u1'' staleStore)) ''u1''))
       = [TX_EXPIRED, USED]"
    by code_simp
  have k: "map tx_status (txsOf (loyalties
          (snd (usePoints 20 ''u1'' 50 ''REDEEM'' noMetadata staleStore)) ''u1''))
       = [ACTIVE, USED]"
    by code_simp
  have v: "totalPoints staleAccount - 50 = 50" "level staleAccount = 1"
    by (simp_all add: staleAccount_def)
  from usePoints_tests_stored_balance [OF p l, of 20 "''REDEEM''" noMetadata] b v
  have "fst (usePoints 20 ''u1'' 50 ''REDEEM'' noMetadata staleStore) = Inr (50, 1)"
    by simp
  then show ?thesis using p l b g g' k by simp
qed

section \<open>Properties of the payment and product services\<close>

lemma recordActivity_tables:
  "products (snd (recordActivity now u a d s)) = products s"
  "payments (snd (recordActivity now u a d s)) = payments s"
  "loyalties (snd (recordActivity now u a d s)) = loyalties s"
  by (simp_all add: recordActivity_def createUserProfile_def Let_def split_def
      split: option.splits)

lemma approve_success:
  assumes "payments s pid = Some pay"
    and "p_status pay = PENDING \<or> p_status pay = PROCESSING"
    and "\<not> productUnavailable (products s (p_productId pay))"
  shows "fst (approvePayment now creds pid admin s) =
           Inr (pay\<lparr> p_status := COMPLETED, p_completedAt := Some now,
                      p_approvedBy := Some admin, p_deliveryData := Some creds \<rparr>, creds)
       \<and> payments (snd (approvePayment now creds pid admin s)) =
           (payments s)(pid \<mapsto> pay\<lparr> p_status := COMPLETED, p_completedAt := Some now,
                      p_approvedBy := Some admin, p_deliveryData := Some creds \<rparr>)
       \<and> (\<exists>prd. products s (p_productId pay) = Some prd \<and> \<not> vendido prd \<and>
             products (snd (approvePayment now creds pid admin s)) =
               (products s)(p_productId pay \<mapsto> prd\<lparr> vendido := True, disponivel := False,
                      dataVenda := Some now, compradoPor := Some (p_userId pay) \<rparr>))"
  using assms
  by (auto simp: approvePayment_def productUnavailable_def Let_def split_def
      recordActivity_tables split: option.splits)

lemma approve_unavailable:
  assumes "payments s pid = Some pay"
    and "p_status pay = PENDING \<or> p_status pay = PROCESSING"
    and "productUnavailable (products s (p_productId pay))"
  shows "approvePayment now creds pid admin s =
           (Inl (ProductUnavailable,
                 Some (pay\<lparr> p_status := REJECTED, p_rejectedAt := Some now,
                            p_rejectionReason := Some ProdutoNaoDisponivel \<rparr>)),
            s\<lparr>payments := (payments s)(pid \<mapsto>
                 pay\<lparr> p_status := REJECTED, p_rejectedAt := Some now,
                      p_rejectionReason := Some ProdutoNaoDisponivel \<rparr>)\<rparr>)"
  using assms
  by (auto simp: approvePayment_def productUnavailable_def Let_def split: option.splits)

lemma approve_closed:
  assumes "payments s pid = Some pay"
    and "p_status pay \<noteq> PENDING" and "p_status pay \<noteq> PROCESSING"
  shows "approvePayment now creds pid admin s =
           (Inl (if p_status pay = COMPLETED then AlreadyApproved
                 else AlreadyRejectedOrExpired, Some pay), s)"
  using assms by (simp add: approvePayment_def)

lemma approve_missing:
  assumes "payments s pid = None"
  shows "approvePayment now creds pid admin s = (Inl (PaymentNotFound, None), s)"
  using assms by (simp add: approvePayment_def)

text \<open>The four ways through \<open>approvePayment\<close>.\<close>

lemma approve_cases:
  obtains (missing) "payments s pid = None"
  | (closed) pay where "payments s pid = Some pay"
      "p_status pay \<noteq> PENDING" "p_status pay \<noteq> PROCESSING"
  | (unavailable) pay where "payments s pid = Some pay"
      "p_status pay = PENDING \<or> p_status pay = PROCESSING"
      "productUnavailable (products s (p_productId pay))"
  | (success) pay where "payments s pid = Some pay"
      "p_status pay = PENDING \<or> p_status pay = PROCESSING"
      "\<not> productUnavailable (products s (p_productId pay))"
  by (cases "payments s pid") auto

lemma approve_loyalties:
  "loyalties (snd (approvePayment now creds pid admin s)) = loyalties s"
  by (auto simp: approvePayment_def Let_def split_def recordActivity_tables
      split: option.splits)

lemma reject_completed:
  assumes "payments s pid = Some pay" and "p_status pay = COMPLETED"
  shows "rejectPayment now pid reason admin s = (Inl (ApprovedCannotBeRejected, Some pay), s)"
  using assms by (simp add: rejectPayment_def)

lemma reject_rejected:
  assumes "payments s pid = Some pay" and "p_status pay = REJECTED"
  shows "rejectPayment now pid reason admin s = (Inl (RejectedBefore, Some pay), s)"
  using assms by (simp add: rejectPayment_def)

lemma reject_other:
  assumes "payments s pid = Some pay"
    and "p_status pay \<noteq> COMPLETED" and "p_status pay \<noteq> REJECTED"
  shows "fst (rejectPayment now pid reason admin s) =
           Inr (pay\<lparr> p_status := REJECTED, p_rejectedAt := Some now,
                     p_rejectionReason := Some (GivenReason reason),
                     p_rejectedBy := Some admin \<rparr>)
       \<and> payments (snd (rejectPayment now pid reason admin s)) =
           (payments s)(pid \<mapsto> pay\<lparr> p_status := REJECTED, p_rejectedAt := Some now,
                     p_rejectionReason := Some (GivenReason reason),
                     p_rejectedBy := Some admin \<rparr>)"
  using assms
  by (auto simp: rejectPayment_def Let_def split_def recordActivity_tables)

lemma reject_products:
  "products (snd (rejectPayment now pid reason admin s)) = products s"
  by (auto simp: rejectPayment_def Let_def split_def recordActivity_tables
      split: option.splits)

lemma reject_success_open:
  assumes "\<not> isl (fst (rejectPayment now pid reason admin s))"
  shows "\<exists>pay. payments s pid = Some pay \<and> p_status pay \<noteq> COMPLETED
               \<and> p_status pay \<noteq> REJECTED"
  using assms
  by (auto simp: rejectPayment_def split: option.splits if_splits)

lemma approve_success_open:
  assumes "\<not> isl (fst (approvePayment now creds pid admin s))"
  shows "\<exists>pay. payments s pid = Some pay
               \<and> (p_status pay = PENDING \<or> p_status pay = PROCESSING)
               \<and> \<not> productUnavailable (products s (p_productId pay))"
proof (cases rule: approve_cases [of s pid])
  case missing
  then show ?thesis using assms by (simp add: approve_missing)
next
  case (closed pay)
  then show ?thesis using assms by (simp add: approve_closed)
next
  case (unavailable pay)
  then show ?thesis using assms by (simp add: approve_unavailable)
next
  case (success pay)
  then show ?thesis by blast
qed

lemma createPayment_ok:
  assumes "users s (pd_userId pd) \<noteq> None" and "products s (pd_productId pd) \<noteq> None"
  shows "\<not> isl (fst (createPayment t0 newId gen enc pd s))
       \<and> p_status (projr (fst (createPayment t0 newId gen enc pd s))) = PENDING
       \<and> p_expiresAt (projr (fst (createPayment t0 newId gen enc pd s))) = t0 + 1800 * 1000
       \<and> payments (snd (createPayment t0 newId gen enc pd s)) newId
           = Some (projr (fst (createPayment t0 newId gen enc pd s)))"
  using assms by (simp add: createPayment_def Let_def expirationTime_def)

lemma createPayment_fails:
  assumes "users s (pd_userId pd) = None \<or> products s (pd_productId pd) = None"
  shows "createPayment t0 newId gen enc pd s = (Inl ForeignKeyViolation, s)"
  using assms by (auto simp: createPayment_def)

lemma createPayment_products:
  "products (snd (createPayment t0 newId gen enc pd s)) = products s"
  by (simp add: createPayment_def Let_def)

lemma approve_succeeds_iff:
  "(\<not> isl (fst (approvePayment now creds pid admin s))) =
     (case payments s pid of
        None \<Rightarrow> False
      | Some pay \<Rightarrow> (p_status pay = PENDING \<or> p_status pay = PROCESSING)
                    \<and> \<not> productUnavailable (products s (p_productId pay)))"
proof (cases rule: approve_cases [of s pid])
  case missing
  then show ?thesis by (simp add: approve_missing)
next
  case (closed pay)
  then show ?thesis by (simp add: approve_closed)
next
  case (unavailable pay)
  then show ?thesis by (simp add: approve_unavailable)
next
  case (success pay)
  then show ?thesis using approve_success [OF success, of now creds admin] by simp
qed

lemma approve_status_exact:
  "statusOf (snd (approvePayment now creds pid admin s)) pid =
     (if \<not> isl (fst (approvePayment now creds pid admin s)) then Some COMPLETED
      else if isOpen (statusOf s pid) then Some REJECTED
      else statusOf s pid)"
proof (cases rule: approve_cases [of s pid])
  case missing
  then show ?thesis by (simp add: approve_missing statusOf_def isOpen_def)
next
  case (closed pay)
  then show ?thesis by (simp add: approve_closed statusOf_def isOpen_def)
next
  case (unavailable pay)
  then show ?thesis by (auto simp: approve_unavailable statusOf_def isOpen_def)
next
  case (success pay)
  then show ?thesis using approve_success [OF success, of now creds admin]
    by (simp add: statusOf_def)
qed

subsection \<open>Approval and the expiration time\<close>

text \<open>
  Claim C1, as the code has it. When the buyer and the product have their rows, a
  payment is created with status PENDING and \<open>expiresAt\<close> 1800 seconds after the
  creation time, and it is stored; when one of the rows is missing, creation throws
  and stores nothing. \<open>approvePayment\<close> does not read \<open>expiresAt\<close> or the clock to
  decide: it succeeds exactly on a PENDING or PROCESSING payment whose product
  exists, is available and is not sold, so it also succeeds on such a payment after
  its expiration time has passed. A successful call stores COMPLETED; a failed call
  on a PENDING or PROCESSING payment stores REJECTED; every other failed call
  leaves the status as it found it. No call fails with an expired result or sets
  EXPIRED.
\<close>

theorem approvePayment_ignores_expiry:
  "(users s0 (pd_userId pd) \<noteq> None \<and> products s0 (pd_productId pd) \<noteq> None \<longrightarrow>
      \<not> isl (fst (createPayment t0 newId gen enc pd s0))
      \<and> p_status (projr (fst (createPayment t0 newId gen enc pd s0))) = PENDING
      \<and> p_expiresAt (projr (fst (createPayment t0 newId gen enc pd s0))) = t0 + 1800 * 1000
      \<and> payments (snd (createPayment t0 newId gen enc pd s0)) newId
          = Some (projr (fst (createPayment t0 newId gen enc pd s0))))
   \<and> (users s0 (pd_userId pd) = None \<or> products s0 (pd_productId pd) = None \<longrightarrow>
        createPayment t0 newId gen enc pd s0 = (Inl ForeignKeyViolation, s0))
   \<and> (\<not> isl (fst (approvePayment now creds pid admin s))) =
        (case payments s pid of
           None \<Rightarrow> False
         | Some pay \<Rightarrow> (p_status pay = PENDING \<or> p_status pay = PROCESSING)
                       \<and> \<not> productUnavailable (products s (p_productId pay)))
   \<and> statusOf (snd (approvePayment now creds pid admin s)) pid =
        (if \<not> isl (fst (approvePayment now creds pid admin s)) then Some COMPLETED
         else if isOpen (statusOf s pid) then Some REJECTED
         else statusOf s pid)
   \<and> (payments s pid = Some pay
        \<and> (p_status pay = PENDING \<or> p_status pay = PROCESSING)
        \<and> \<not> productUnavailable (products s (p_productId pay))
        \<and> p_expiresAt pay < now \<longrightarrow>
        \<not> isl (fst (approvePayment now creds pid admin s))
        \<and> statusOf (snd (approvePayment now creds pid admin s)) pid = Some COMPLETED)"
proof -
  have c1: "users s0 (pd_userId pd) \<noteq> None \<and> products s0 (pd_productId pd) \<noteq> None \<longrightarrow>
      \<not> isl (fst (createPayment t0 newId gen enc pd s0))
      \<and> p_status (projr (fst (createPayment t0 newId gen enc pd s0))) = PENDING
      \<and> p_expiresAt (projr (fst (createPayment t0 newId gen enc pd s0))) = t0 + 1800 * 1000
      \<and> payments (snd (createPayment t0 newId gen enc pd s0)) newId
          = Some (projr (fst (createPayment t0 newId gen enc pd s0)))"
    using createPayment_ok [of s0 pd t0 newId gen enc] by blast
  have c2: "users s0 (pd_userId pd) = None \<or> products s0 (pd_productId pd) = None \<longrightarrow>
        createPayment t0 newId gen enc pd s0 = (Inl ForeignKeyViolation, s0)"
    using createPayment_fails [of s0 pd t0 newId gen enc] by blast
  have c5: "\<not> isl (fst (approvePayment now creds pid admin s))
        \<and> statusOf (snd (approvePayment now creds pid admin s)) pid = Some COMPLETED"
    if "payments s pid = Some pay"
      "p_status pay = PENDING \<or> p_status pay = PROCESSING"
      "\<not> productUnavailable (products s (p_productId pay))"
    using approve_success [OF that, of now creds admin] by (simp add: statusOf_def)
  show ?thesis
    using c1 c2 c5 approve_succeeds_iff [of now creds pid admin s]
      approve_status_exact [of now creds pid admin s]
    by blast
qed

text \<open>The payment of 59.90 created at time 0 expires at 1800000 and is approved at
  1801000; without the user row of the buyer the creation throws; an approval of
  the payment with status EXPIRED fails and leaves it EXPIRED.\<close>

theorem approvePayment_ignores_expiry_witness:
  "users demoStore (pd_userId demoPaymentData) \<noteq> None
   \<and> products demoStore (pd_productId demoPaymentData) \<noteq> None
   \<and> fst (createPayment 0 ''pay1'' demoPix demoEncode demoPaymentData demoStore)
       = Inr demoPayment
   \<and> p_status demoPayment = PENDING
   \<and> p_expiresAt demoPayment = 1800000
   \<and> payments paidStore ''pay1'' = Some demoPayment
   \<and> createPayment 0 ''pay1'' demoPix demoEncode demoPaymentData noUserStore
       = (Inl ForeignKeyViolation, noUserStore)
   \<and> \<not> productUnavailable (products paidStore (p_productId demoPayment))
   \<and> p_expiresAt demoPayment < 1801000
   \<and> \<not> isl (fst (approvePayment 1801000 demoCreds ''pay1'' ''admin'' paidStore))
   \<and> statusOf (snd (approvePayment 1801000 demoCreds ''pay1'' ''admin'' paidStore)) ''pay1''
       = Some COMPLETED
   \<and> isl (fst (approvePayment 1801000 demoCreds ''pay1'' ''admin'' (storeWithStatus EXPIRED)))
   \<and> statusOf (snd (approvePayment 1801000 demoCreds ''pay1'' ''admin''
        (storeWithStatus EXPIRED))) ''pay1'' = Some EXPIRED"
proof -
  have u: "users demoStore (pd_userId demoPaymentData) \<noteq> None"
    by (simp add: demoStore_def demoPaymentData_def)
  have pr: "products demoStore (pd_productId demoPaymentData) \<noteq> None"
    by (simp add: demoStore_def demoPaymentData_def)
  have nu: "users noUserStore (pd_userId demoPaymentData) = None"
    by (simp add: noUserStore_def)
  have cr: "fst (createPayment 0 ''pay1'' demoPix demoEncode demoPaymentData demoStore)
      = Inr demoPayment"
    by code_simp
  have h1: "payments paidStore ''pay1'' = Some demoPayment"
    by code_simp
  have h2: "p_status demoPayment = PENDING" "p_expiresAt demoPayment = 1800000"
    by (simp_all add: demoPayment_def)
  have h3: "\<not> productUnavailable (products paidStore (p_productId demoPayment))"
    by code_simp
  have h4: "p_expiresAt demoPayment < 1801000"
    by (simp add: demoPayment_def)
  have x1: "statusOf (storeWithStatus EXPIRED) ''pay1'' = Some EXPIRED"
    by code_simp
  have x2: "isl (fst (approvePayment 1801000 demoCreds ''pay1'' ''admin''
      (storeWithStatus EXPIRED)))"
    by code_simp
  note tN = approvePayment_ignores_expiry [where ?s0.0 = noUserStore and pd = demoPaymentData
      and ?t0.0 = 0 and newId = "''pay1''" and gen = demoPix and enc = demoEncode]
  note tA = approvePayment_ignores_expiry [where s = paidStore and pid = "''pay1''"
      and pay = demoPayment and now = 1801000 and creds = demoCreds and admin = "''admin''"]
  note tX = approvePayment_ignores_expiry [where s = "storeWithStatus EXPIRED"
      and pid = "''pay1''" and now = 1801000 and creds = demoCreds and admin = "''admin''"]
  have e1: "createPayment 0 ''pay1'' demoPix demoEncode demoPaymentData noUserStore
       = (Inl ForeignKeyViolation, noUserStore)"
    using tN nu by blast
  have e2: "\<not> isl (fst (approvePayment 1801000 demoCreds ''pay1'' ''admin'' paidStore))
     \<and> statusOf (snd (approvePayment 1801000 demoCreds ''pay1'' ''admin'' paidStore)) ''pay1''
       = Some COMPLETED"
    using tA h1 h2(1) h3 h4 by blast
  have e3: "statusOf (snd (approvePayment 1801000 demoCreds ''pay1'' ''admin''
        (storeWithStatus EXPIRED))) ''pay1'' = Some EXPIRED"
    using tX x1 x2 by (simp add: isOpen_def)
  show ?thesis using u pr cr h2 h1 e1 h3 h4 e2 x2 e3 by simp
qed

subsection \<open>Approval and the loyalty ledger\<close>

text \<open>
  Claim C2, as the code has it. \<open>approvePayment\<close> never writes the loyalty table:
  whatever its outcome, the loyalty accounts after the call are the ones before it.
\<close>

theorem approvePayment_leaves_loyalty_untouched:
  "loyalties (snd (approvePayment now creds pid admin s)) = loyalties s"
  by (rule approve_loyalties)

text \<open>The purchase of 59.90 is approved; the buyer has no loyalty account afterwards
  and the balance read reports the empty view.\<close>

theorem approvePayment_leaves_loyalty_untouched_witness:
  "\<not> isl (fst (approvePayment 1000 demoCreds ''pay1'' ''admin'' paidStore))
   \<and> statusOf (snd (approvePayment 1000 demoCreds ''pay1'' ''admin'' paidStore)) ''pay1''
       = Some COMPLETED
   \<and> loyalties (snd (approvePayment 1000 demoCreds ''pay1'' ''admin'' paidStore)) ''u1'' = None
   \<and> fst (getUserPoints 2000 ''u1''
            (snd (approvePayment 1000 demoCreds ''pay1'' ''admin'' paidStore))) = emptyView"
proof -
  let ?s = "snd (approvePayment 1000 demoCreds ''pay1'' ''admin'' paidStore)"
  have a: "\<not> isl (fst (approvePayment 1000 demoCreds ''pay1'' ''admin'' paidStore))"
    by code_simp
  have b: "statusOf ?s ''pay1'' = Some COMPLETED"
    by code_simp
  have "loyalties paidStore ''u1'' = None"
    by code_simp
  with approvePayment_leaves_loyalty_untouched [of 1000 demoCreds "''pay1''" "''admin''" paidStore]
  have c: "loyalties ?s ''u1'' = None" by simp
  then have d: "fst (getUserPoints 2000 ''u1'' ?s) = emptyView"
    by (simp add: getUserPoints_def)
  show ?thesis using a b c d by simp
qed

subsection \<open>Terminal statuses\<close>

text \<open>
  Claim C3, as the code has it. For a payment that is COMPLETED, REJECTED or EXPIRED,
  \<open>approvePayment\<close> fails and leaves the store as it is. \<open>rejectPayment\<close> fails
  on a COMPLETED payment with the already-approved result and on a REJECTED payment
  with the already-rejected result, leaving the store as it is. After a successful
  approval the payment is COMPLETED and a rejection of it fails; after a successful
  rejection it is REJECTED and an approval of it fails. An EXPIRED payment is not
  refused by \<open>rejectPayment\<close>: the call succeeds and stores REJECTED.
\<close>

theorem terminal_payment_transitions:
  assumes "payments s pid = Some pay"
  shows "(p_status pay = COMPLETED \<or> p_status pay = REJECTED \<or> p_status pay = EXPIRED \<longrightarrow>
            approvePayment now creds pid admin s =
              (Inl (if p_status pay = COMPLETED then AlreadyApproved
                    else AlreadyRejectedOrExpired, Some pay), s))
       \<and> (p_status pay = COMPLETED \<longrightarrow>
            rejectPayment now pid reason admin s =
              (Inl (ApprovedCannotBeRejected, Some pay), s))
       \<and> (p_status pay = REJECTED \<longrightarrow>
            rejectPayment now pid reason admin s = (Inl (RejectedBefore, Some pay), s))
       \<and> (\<not> isl (fst (approvePayment now creds pid admin s)) \<longrightarrow>
            statusOf (snd (approvePayment now creds pid admin s)) pid = Some COMPLETED
            \<and> rejectPayment now' pid reason admin' (snd (approvePayment now creds pid admin s)) =
                (Inl (ApprovedCannotBeRejected,
                      payments (snd (approvePayment now creds pid admin s)) pid),
                 snd (approvePayment now creds pid admin s)))
       \<and> (\<not> isl (fst (rejectPayment now pid reason admin s)) \<longrightarrow>
            statusOf (snd (rejectPayment now pid reason admin s)) pid = Some REJECTED
            \<and> approvePayment now' creds pid admin' (snd (rejectPayment now pid reason admin s)) =
                (Inl (AlreadyRejectedOrExpired,
                      payments (snd (rejectPayment now pid reason admin s)) pid),
                 snd (rejectPayment now pid reason admin s)))
       \<and> (p_status pay = EXPIRED \<longrightarrow>
            \<not> isl (fst (rejectPayment now pid reason admin s))
            \<and> statusOf (snd (rejectPayment now pid reason admin s)) pid = Some REJECTED)"
proof -
  have c1: "p_status pay = COMPLETED \<or> p_status pay = REJECTED \<or> p_status pay = EXPIRED \<longrightarrow>
            approvePayment now creds pid admin s =
              (Inl (if p_status pay = COMPLETED then AlreadyApproved
                    else AlreadyRejectedOrExpired, Some pay), s)"
    using approve_closed [OF assms, of now creds admin] by auto
  have c2: "p_status pay = COMPLETED \<longrightarrow>
            rejectPayment now pid reason admin s =
              (Inl (ApprovedCannotBeRejected, Some pay), s)"
    using reject_completed [OF assms] by simp
  have c3: "p_status pay = REJECTED \<longrightarrow>
            rejectPayment now pid reason admin s = (Inl (RejectedBefore, Some pay), s)"
    using reject_rejected [OF assms] by simp
  have c4: "statusOf (snd (approvePayment now creds pid admin s)) pid = Some COMPLETED
            \<and> rejectPayment now' pid reason admin' (snd (approvePayment now creds pid admin s)) =
                (Inl (ApprovedCannotBeRejected,
                      payments (snd (approvePayment now creds pid admin s)) pid),
                 snd (approvePayment now creds pid admin s))"
    if ok: "\<not> isl (fst (approvePayment now creds pid admin s))"
  proof -
    let ?s1 = "snd (approvePayment now creds pid admin s)"
    let ?pay1 = "pay\<lparr> p_status := COMPLETED, p_completedAt := Some now,
                      p_approvedBy := Some admin, p_deliveryData := Some creds \<rparr>"
    from approve_success_open [OF ok] assms
    have op: "p_status pay = PENDING \<or> p_status pay = PROCESSING"
      and av: "\<not> productUnavailable (products s (p_productId pay))"
      by auto
    have st: "payments ?s1 pid = Some ?pay1"
      using approve_success [OF assms op av, of now creds admin] by simp
    have "rejectPayment now' pid reason admin' ?s1 =
            (Inl (ApprovedCannotBeRejected, Some ?pay1), ?s1)"
      by (rule reject_completed [OF st]) simp
    then show ?thesis using st by (simp add: statusOf_def)
  qed
  have c5: "statusOf (snd (rejectPayment now pid reason admin s)) pid = Some REJECTED
            \<and> approvePayment now' creds pid admin' (snd (rejectPayment now pid reason admin s)) =
                (Inl (AlreadyRejectedOrExpired,
                      payments (snd (rejectPayment now pid reason admin s)) pid),
                 snd (rejectPayment now pid reason admin s))"
    if ok: "\<not> isl (fst (rejectPayment now pid reason admin s))"
  proof -
    let ?s1 = "snd (rejectPayment now pid reason admin s)"
    let ?pay1 = "pay\<lparr> p_status := REJECTED, p_rejectedAt := Some now,
                      p_rejectionReason := Some (GivenReason reason),
                      p_rejectedBy := Some admin \<rparr>"
    from reject_success_open [OF ok] assms
    have n1: "p_status pay \<noteq> COMPLETED" and n2: "p_status pay \<noteq> REJECTED"
      by auto
    have st: "payments ?s1 pid = Some ?pay1"
      using reject_other [OF assms n1 n2, of now reason admin] by simp
    have "approvePayment now' creds pid admin' ?s1 =
            (Inl (if p_status ?pay1 = COMPLETED then AlreadyApproved
                  else AlreadyRejectedOrExpired, Some ?pay1), ?s1)"
      by (rule approve_closed [OF st]) simp_all
    then show ?thesis using st by (simp add: statusOf_def)
  qed
  have c6: "p_status pay = EXPIRED \<longrightarrow>
            \<not> isl (fst (rejectPayment now pid reason admin s))
            \<and> statusOf (snd (rejectPayment now pid reason admin s)) pid = Some REJECTED"
    using reject_other [OF assms, of now reason admin] by (simp add: statusOf_def)
  show ?thesis using c1 c2 c3 c4 c5 c6 by blast
qed

text \<open>The payment \<open>pay1\<close> with each of the three statuses, and the two orders of an
  approval and a rejection of the open payment.\<close>

theorem terminal_payment_transitions_witness:
  "payments (storeWithStatus COMPLETED) ''pay1'' = Some (demoPayment\<lparr>p_status := COMPLETED\<rparr>)
   \<and> approvePayment 9 demoCreds ''pay1'' ''admin'' (storeWithStatus COMPLETED) =
       (Inl (AlreadyApproved, Some (demoPayment\<lparr>p_status := COMPLETED\<rparr>)),
        storeWithStatus COMPLETED)
   \<and> rejectPayment 9 ''pay1'' ''late'' ''admin'' (storeWithStatus COMPLETED) =
       (Inl (ApprovedCannotBeRejected, Some (demoPayment\<lparr>p_status := COMPLETED\<rparr>)),
        storeWithStatus COMPLETED)
   \<and> payments (storeWithStatus REJECTED) ''pay1'' = Some (demoPayment\<lparr>p_status := REJECTED\<rparr>)
   \<and> rejectPayment 9 ''pay1'' ''late'' ''admin'' (storeWithStatus REJECTED) =
       (Inl (RejectedBefore, Some (demoPayment\<lparr>p_status := REJECTED\<rparr>)),
        storeWithStatus REJECTED)
   \<and> payments (storeWithStatus EXPIRED) ''pay1'' = Some (demoPayment\<lparr>p_status := EXPIRED\<rparr>)
   \<and> approvePayment 9 demoCreds ''pay1'' ''admin'' (storeWithStatus EXPIRED) =
       (Inl (AlreadyRejectedOrExpired, Some (demoPayment\<lparr>p_status := EXPIRED\<rparr>)),
        storeWithStatus EXPIRED)
   \<and> statusOf (snd (rejectPayment 9 ''pay1'' ''late'' ''admin'' (storeWithStatus EXPIRED)))
        ''pay1'' = Some REJECTED
   \<and> payments paidStore ''pay1'' = Some demoPayment
   \<and> \<not> isl (fst (approvePayment 5 demoCreds ''pay1'' ''admin'' paidStore))
   \<and> fst (rejectPayment 9 ''pay1'' ''late'' ''admin''
            (snd (approvePayment 5 demoCreds ''pay1'' ''admin'' paidStore))) =
       Inl (ApprovedCannotBeRejected,
            payments (snd (approvePayment 5 demoCreds ''pay1'' ''admin'' paidStore)) ''pay1'')
   \<and> \<not> isl (fst (rejectPayment 5 ''pay1'' ''late'' ''admin'' paidStore))
   \<and> fst (approvePayment 9 demoCreds ''pay1'' ''admin''
            (snd (rejectPayment 5 ''pay1'' ''late'' ''admin'' paidStore))) =
       Inl (AlreadyRejectedOrExpired,
            payments (snd (rejectPayment 5 ''pay1'' ''late'' ''admin'' paidStore)) ''pay1'')"
proof -
  have p0: "payments paidStore ''pay1'' = Some demoPayment"
    by code_simp
  have pst: "payments (storeWithStatus st) ''pay1'' = Some (demoPayment\<lparr>p_status := st\<rparr>)"
    for st
    using p0 by (simp add: storeWithStatus_def)
  have a: "\<not> isl (fst (approvePayment 5 demoCreds ''pay1'' ''admin'' paidStore))"
    by code_simp
  have r: "\<not> isl (fst (rejectPayment 5 ''pay1'' ''late'' ''admin'' paidStore))"
    by code_simp
  note tC = terminal_payment_transitions [OF pst [of COMPLETED], of 9 demoCreds "''admin''"
      "''late''" 9 "''admin''"]
  note tR = terminal_payment_transitions [OF pst [of REJECTED], of 9 demoCreds "''admin''"
      "''late''" 9 "''admin''"]
  note tE = terminal_payment_transitions [OF pst [of EXPIRED], of 9 demoCreds "''admin''"
      "''late''" 9 "''admin''"]
  note tO = terminal_payment_transitions [OF p0, of 5 demoCreds "''admin''"
      "''late''" 9 "''admin''"]
  have e1: "approvePayment 9 demoCreds ''pay1'' ''admin'' (storeWithStatus COMPLETED) =
       (Inl (AlreadyApproved, Some (demoPayment\<lparr>p_status := COMPLETED\<rparr>)),
        storeWithStatus COMPLETED)"
    using tC by simp
  have e2: "rejectPayment 9 ''pay1'' ''late'' ''admin'' (storeWithStatus COMPLETED) =
       (Inl (ApprovedCannotBeRejected, Some (demoPayment\<lparr>p_status := COMPLETED\<rparr>)),
        storeWithStatus COMPLETED)"
    using tC by simp
  have e3: "rejectPayment 9 ''pay1'' ''late'' ''admin'' (storeWithStatus REJECTED) =
       (Inl (RejectedBefore, Some (demoPayment\<lparr>p_status := REJECTED\<rparr>)),
        storeWithStatus REJECTED)"
    using tR by simp
  have e4: "approvePayment 9 demoCreds ''pay1'' ''admin'' (storeWithStatus EXPIRED) =
       (Inl (AlreadyRejectedOrExpired, Some (demoPayment\<lparr>p_status := EXPIRED\<rparr>)),
        storeWithStatus EXPIRED)"
    using tE by simp
  have e5: "statusOf (snd (rejectPayment 9 ''pay1'' ''late'' ''admin''
       (storeWithStatus EXPIRED))) ''pay1'' = Some REJECTED"
    using tE by simp
  have e6: "fst (rejectPayment 9 ''pay1'' ''late'' ''admin''
            (snd (approvePayment 5 demoCreds ''pay1'' ''admin'' paidStore))) =
       Inl (ApprovedCannotBeRejected,
            payments (snd (approvePayment 5 demoCreds ''pay1'' ''admin'' paidStore)) ''pay1'')"
    using tO a by simp
  have e7: "fst (approvePayment 9 demoCreds ''pay1'' ''admin''
            (snd (rejectPayment 5 ''pay1'' ''late'' ''admin'' paidStore))) =
       Inl (AlreadyRejectedOrExpired,
            payments (snd (rejectPayment 5 ''pay1'' ''late'' ''admin'' paidStore)) ''pay1'')"
    using tO r by simp
  show ?thesis
    using pst [of COMPLETED] pst [of REJECTED] pst [of EXPIRED] p0 a r e1 e2 e3 e4 e5 e6 e7
    by simp
qed

text \<open>The claim as the specification states it fails on an EXPIRED payment: the
  rejection succeeds and the status moves from EXPIRED to REJECTED.\<close>

theorem reject_expired_payment_succeeds:
  "statusOf (storeWithStatus EXPIRED) ''pay1'' = Some EXPIRED
   \<and> \<not> isl (fst (rejectPayment 9 ''pay1'' ''late'' ''admin'' (storeWithStatus EXPIRED)))
   \<and> statusOf (snd (rejectPayment 9 ''pay1'' ''late'' ''admin'' (storeWithStatus EXPIRED)))
        ''pay1'' = Some REJECTED"
  by code_simp

subsection \<open>Selling a product\<close>

lemma markProductAsSold_row:
  "products (snd (markProductAsSold now k' u s)) k =
     (if k = k' then
        (case products s k of
           None \<Rightarrow> None
         | Some p \<Rightarrow> if vendido p then Some p
                     else Some (p\<lparr> vendido := True, disponivel := False,
                                   dataVenda := Some now, compradoPor := Some u \<rparr>))
      else products s k)"
  by (simp add: markProductAsSold_def Let_def split: option.splits)

lemma approve_row:
  "products (snd (approvePayment now creds pid admin s)) k = products s k
   \<or> (\<not> isSold (products s k) \<and> isSold (products (snd (approvePayment now creds pid admin s)) k)
      \<and> soldImpliesUnavailable (products (snd (approvePayment now creds pid admin s)) k))"
proof (cases rule: approve_cases [of s pid])
  case missing
  then show ?thesis by (simp add: approve_missing)
next
  case (closed pay)
  then show ?thesis by (simp add: approve_closed)
next
  case (unavailable pay)
  then show ?thesis by (simp add: approve_unavailable)
next
  case (success pay)
  from approve_success [OF success, of now creds admin]
  obtain prd where "products s (p_productId pay) = Some prd" "\<not> vendido prd"
    "products (snd (approvePayment now creds pid admin s)) =
       (products s)(p_productId pay \<mapsto> prd\<lparr> vendido := True, disponivel := False,
          dataVenda := Some now, compradoPor := Some (p_userId pay) \<rparr>)"
    by blast
  then show ?thesis
    by (cases "k = p_productId pay") (simp_all add: isSold_def soldImpliesUnavailable_def)
qed

text \<open>
  Claim C4, as the code has it. \<open>markProductAsSold\<close> fails on every product that is
  already sold and leaves the store as it is; when it succeeds, the product was not
  sold before and is sold and not available after. \<open>approvePayment\<close> on a PENDING or
  PROCESSING payment whose product is missing, unavailable or sold fails with the
  product-unavailable result, stores REJECTED for the payment and leaves the
  products as they are; when it succeeds, the product was not sold before and is
  sold and not available after. A sold product row is not rewritten by
  \<open>markProductAsSold\<close> or \<open>approvePayment\<close>. Each of \<open>markProductAsSold\<close>,
  \<open>approvePayment\<close>, \<open>rejectPayment\<close> and \<open>createPayment\<close> preserves "sold implies
  not available" on every row: a row that satisfies it before the call satisfies it
  after. (\<open>updateProduct\<close> does not preserve it.)
\<close>

theorem product_sold_at_most_once:
  "(isSold (products s k) \<longrightarrow>
      markProductAsSold now k u s = (Inl ProductAlreadySold, s))
   \<and> (\<not> isl (fst (markProductAsSold now k u s)) \<longrightarrow>
        \<not> isSold (products s k)
        \<and> isSold (products (snd (markProductAsSold now k u s)) k)
        \<and> soldImpliesUnavailable (products (snd (markProductAsSold now k u s)) k))
   \<and> (payments s pid = Some pay
        \<and> (p_status pay = PENDING \<or> p_status pay = PROCESSING)
        \<and> productUnavailable (products s (p_productId pay)) \<longrightarrow>
          fst (approvePayment now creds pid admin s) =
            Inl (ProductUnavailable,
                 Some (pay\<lparr> p_status := REJECTED, p_rejectedAt := Some now,
                            p_rejectionReason := Some ProdutoNaoDisponivel \<rparr>))
          \<and> statusOf (snd (approvePayment now creds pid admin s)) pid = Some REJECTED
          \<and> products (snd (approvePayment now creds pid admin s)) = products s)
   \<and> (payments s pid = Some pay \<and> \<not> isl (fst (approvePayment now creds pid admin s)) \<longrightarrow>
          \<not> isSold (products s (p_productId pay))
          \<and> isSold (products (snd (approvePayment now creds pid admin s)) (p_productId pay))
          \<and> soldImpliesUnavailable
               (products (snd (approvePayment now creds pid admin s)) (p_productId pay)))
   \<and> (isSold (products s k) \<longrightarrow>
          products (snd (markProductAsSold now k' u s)) k = products s k
          \<and> products (snd (approvePayment now creds pid admin s)) k = products s k)
   \<and> (soldImpliesUnavailable (products s k) \<longrightarrow>
          soldImpliesUnavailable (products (snd (markProductAsSold now k' u s)) k)
          \<and> soldImpliesUnavailable (products (snd (approvePayment now creds pid admin s)) k)
          \<and> soldImpliesUnavailable (products (snd (rejectPayment now pid reason admin s)) k)
          \<and> soldImpliesUnavailable
               (products (snd (createPayment now newId gen enc pd s)) k))"
proof -
  have c1: "isSold (products s k) \<longrightarrow>
            markProductAsSold now k u s = (Inl ProductAlreadySold, s)"
    by (auto simp: markProductAsSold_def isSold_def split: option.splits)
  have c2: "\<not> isl (fst (markProductAsSold now k u s)) \<longrightarrow>
        \<not> isSold (products s k)
        \<and> isSold (products (snd (markProductAsSold now k u s)) k)
        \<and> soldImpliesUnavailable (products (snd (markProductAsSold now k u s)) k)"
    by (auto simp: markProductAsSold_def isSold_def soldImpliesUnavailable_def Let_def
        split: option.splits if_splits)
  have c3: "payments s pid = Some pay
            \<and> (p_status pay = PENDING \<or> p_status pay = PROCESSING)
            \<and> productUnavailable (products s (p_productId pay)) \<longrightarrow>
              fst (approvePayment now creds pid admin s) =
                Inl (ProductUnavailable,
                     Some (pay\<lparr> p_status := REJECTED, p_rejectedAt := Some now,
                                p_rejectionReason := Some ProdutoNaoDisponivel \<rparr>))
              \<and> statusOf (snd (approvePayment now creds pid admin s)) pid = Some REJECTED
              \<and> products (snd (approvePayment now creds pid admin s)) = products s"
    using approve_unavailable [of s pid pay now creds admin] by (simp add: statusOf_def)
  have c4: "\<not> isSold (products s (p_productId pay))
            \<and> isSold (products (snd (approvePayment now creds pid admin s)) (p_productId pay))
            \<and> soldImpliesUnavailable
                 (products (snd (approvePayment now creds pid admin s)) (p_productId pay))"
    if "payments s pid = Some pay" "\<not> isl (fst (approvePayment now creds pid admin s))"
  proof -
    from approve_success_open [OF that(2)] that(1)
    have op: "p_status pay = PENDING \<or> p_status pay = PROCESSING"
      and av: "\<not> productUnavailable (products s (p_productId pay))"
      by auto
    from approve_success [OF that(1) op av, of now creds admin]
    show ?thesis by (auto simp: isSold_def soldImpliesUnavailable_def)
  qed
  have c5: "isSold (products s k) \<longrightarrow>
              products (snd (markProductAsSold now k' u s)) k = products s k
              \<and> products (snd (approvePayment now creds pid admin s)) k = products s k"
    using approve_row [of now creds pid admin s k]
    by (auto simp: markProductAsSold_row isSold_def split: option.splits)
  have c6: "soldImpliesUnavailable (products (snd (markProductAsSold now k' u s)) k)"
    if "soldImpliesUnavailable (products s k)"
    using that
    by (auto simp: markProductAsSold_row soldImpliesUnavailable_def split: option.splits)
  have c7: "soldImpliesUnavailable (products (snd (approvePayment now creds pid admin s)) k)"
    if "soldImpliesUnavailable (products s k)"
    using that approve_row [of now creds pid admin s k] by auto
  have c8: "soldImpliesUnavailable (products (snd (rejectPayment now pid reason admin s)) k)"
    if "soldImpliesUnavailable (products s k)"
    using that by (simp add: reject_products)
  have c9: "soldImpliesUnavailable (products (snd (createPayment now newId gen enc pd s)) k)"
    if "soldImpliesUnavailable (products s k)"
    using that by (simp add: createPayment_products)
  show ?thesis using c1 c2 c3 c4 c5 c6 c7 c8 c9 by blast
qed

text \<open>The first sale of the product succeeds. In the store in which the product of
  the open payment \<open>pay1\<close> has been sold to another buyer, a second sale fails and
  the approval fails and rejects the payment; in the store before that sale the
  approval succeeds and sells the product. In the store in which the sold product
  has been made available again, a second sale still fails and changes nothing.\<close>

theorem product_sold_at_most_once_witness:
  "\<not> isl (fst (markProductAsSold 1 ''prod1'' ''u1'' demoStore))
   \<and> isSold (products soldStore ''prod1'')
   \<and> soldImpliesUnavailable (products soldStore ''prod1'')
   \<and> soldImpliesUnavailable (products soldPaidStore ''prod1'')
   \<and> isSold (products soldPaidStore ''prod1'')
   \<and> markProductAsSold 7 ''prod1'' ''u3'' soldPaidStore = (Inl ProductAlreadySold, soldPaidStore)
   \<and> payments soldPaidStore ''pay1'' = Some demoPayment
   \<and> productUnavailable (products soldPaidStore (p_productId demoPayment))
   \<and> statusOf (snd (approvePayment 7 demoCreds ''pay1'' ''admin'' soldPaidStore)) ''pay1''
       = Some REJECTED
   \<and> products (snd (approvePayment 7 demoCreds ''pay1'' ''admin'' soldPaidStore)) ''prod1''
       = products soldPaidStore ''prod1''
   \<and> soldImpliesUnavailable (products paidStore ''prod1'')
   \<and> \<not> isl (fst (approvePayment 7 demoCreds ''pay1'' ''admin'' paidStore))
   \<and> isSold (products (snd (approvePayment 7 demoCreds ''pay1'' ''admin'' paidStore)) ''prod1'')
   \<and> soldImpliesUnavailable
        (products (snd (approvePayment 7 demoCreds ''pay1'' ''admin'' paidStore)) ''prod1'')
   \<and> soldImpliesUnavailable
        (products (snd (rejectPayment 7 ''pay1'' ''late'' ''admin'' paidStore)) ''prod1'')
   \<and> isSold (products reopenedStore ''prod1'')
   \<and> \<not> soldImpliesUnavailable (products reopenedStore ''prod1'')
   \<and> markProductAsSold 7 ''prod1'' ''u3'' reopenedStore = (Inl ProductAlreadySold, reopenedStore)
   \<and> products (snd (approvePayment 7 demoCreds ''pay1'' ''admin'' reopenedStore)) ''prod1''
       = products reopenedStore ''prod1''"
proof -
  have p0: "payments paidStore ''pay1'' = Some demoPayment"
    by code_simp
  have p1: "payments soldPaidStore ''pay1'' = Some demoPayment"
    by code_simp
  have st: "p_status demoPayment = PENDING \<or> p_status demoPayment = PROCESSING"
    by (simp add: demoPayment_def)
  have pid: "p_productId demoPayment = ''prod1''"
    by (simp add: demoPayment_def)
  have m1: "\<not> isl (fst (markProductAsSold 1 ''prod1'' ''u1'' demoStore))" by code_simp
  have i1: "soldImpliesUnavailable (products soldPaidStore ''prod1'')" by code_simp
  have i2: "isSold (products soldPaidStore ''prod1'')" by code_simp
  have i3: "productUnavailable (products soldPaidStore (p_productId demoPayment))" by code_simp
  have i4: "soldImpliesUnavailable (products paidStore ''prod1'')" by code_simp
  have i5: "\<not> isl (fst (approvePayment 7 demoCreds ''pay1'' ''admin'' paidStore))" by code_simp
  have o1: "isSold (products reopenedStore ''prod1'')" by code_simp
  have o2: "\<not> soldImpliesUnavailable (products reopenedStore ''prod1'')" by code_simp
  note tD = product_sold_at_most_once [where s = demoStore and k = "''prod1''" and now = 1
      and u = "''u1''"]
  note tS = product_sold_at_most_once [where s = soldPaidStore and k = "''prod1''"
      and k' = "''prod1''" and now = 7 and u = "''u3''" and pid = "''pay1''"
      and pay = demoPayment and creds = demoCreds and admin = "''admin''"]
  note tP = product_sold_at_most_once [where s = paidStore and k = "''prod1''" and now = 7
      and pid = "''pay1''" and pay = demoPayment and creds = demoCreds
      and admin = "''admin''" and reason = "''late''"]
  note tO = product_sold_at_most_once [where s = reopenedStore and k = "''prod1''"
      and k' = "''prod1''" and now = 7 and u = "''u3''" and pid = "''pay1''"
      and creds = demoCreds and admin = "''admin''"]
  have d1: "isSold (products soldStore ''prod1'')
      \<and> soldImpliesUnavailable (products soldStore ''prod1'')"
    using tD m1 unfolding soldStore_def by blast
  have e1: "markProductAsSold 7 ''prod1'' ''u3'' soldPaidStore =
      (Inl ProductAlreadySold, soldPaidStore)"
    using tS i2 by blast
  have e2: "statusOf (snd (approvePayment 7 demoCreds ''pay1'' ''admin'' soldPaidStore)) ''pay1''
       = Some REJECTED"
    using tS p1 st i3 by blast
  have e3: "products (snd (approvePayment 7 demoCreds ''pay1'' ''admin'' soldPaidStore)) ''prod1''
       = products soldPaidStore ''prod1''"
    using tS i2 by blast
  have e4: "isSold (products (snd (approvePayment 7 demoCreds ''pay1'' ''admin'' paidStore))
       ''prod1'')"
    using tP p0 i5 pid by metis
  have e5: "soldImpliesUnavailable
        (products (snd (approvePayment 7 demoCreds ''pay1'' ''admin'' paidStore)) ''prod1'')"
    using tP i4 by blast
  have e6: "soldImpliesUnavailable
        (products (snd (rejectPayment 7 ''pay1'' ''late'' ''admin'' paidStore)) ''prod1'')"
    using tP i4 by blast
  have e7: "markProductAsSold 7 ''prod1'' ''u3'' reopenedStore =
      (Inl ProductAlreadySold, reopenedStore)"
    using tO o1 by blast
  have e8: "products (snd (approvePayment 7 demoCreds ''pay1'' ''admin'' reopenedStore)) ''prod1''
       = products reopenedStore ''prod1''"
    using tO o1 by blast
  show ?thesis using m1 d1 i1 i2 e1 p1 i3 e2 e3 i4 i5 e4 e5 e6 o1 o2 e7 e8 by simp
qed

text \<open>The claim as the specification states it fails for \<open>updateProduct\<close>: on the
  sold product an update of \<open>disponivel\<close> to true succeeds, and the row is then sold
  and available.\<close>

theorem updateProduct_reopens_sold_product:
  "isSold (products soldStore ''prod1'')
   \<and> soldImpliesUnavailable (products soldStore ''prod1'')
   \<and> \<not> isl (fst (updateProduct 5 ''prod1'' reopen soldStore))
   \<and> isSold (products (snd (updateProduct 5 ''prod1'' reopen soldStore)) ''prod1'')
   \<and> \<not> soldImpliesUnavailable (products (snd (updateProduct 5 ''prod1'' reopen soldStore))
        ''prod1'')"
  by code_simp

section \<open>Properties of the fraud detection system\<close>

subsection \<open>Range of the scores\<close>















subsection \<open>Failures inside the engine\<close>
















end
